theory Spec2Isabelle
  imports Complex_Main
begin

section \<open>Minima hopping: the search-and-archive controller of \<open>mh.py\<close>\<close>

text \<open>
  Floating-point numbers of the Python source are modelled by the reals: rounding of
  arithmetic, overflow to \<open>inf\<close> and \<open>nan\<close> are not represented, except for the division
  by a row count of zero in \<open>np_div\<close> and the decimal text of \<open>history.dat\<close>. Console
  output is left out, except for the closing summary of the run driver. Everything the
  source raises is a value of type \<open>error\<close> on the left of a sum.
\<close>

subsection \<open>Errors\<close>

datatype error =
    AssertionError
  | ValueError
  | IndexError
  | TypeError
  | ZeroDivisionError
  | UnboundLocalError
  | FileNotFoundError
  | OutOfFuel

definition ebind :: "error + 'a \<Rightarrow> ('a \<Rightarrow> error + 'b) \<Rightarrow> error + 'b" where
  "ebind m f = (case m of Inl e \<Rightarrow> Inl e | Inr x \<Rightarrow> f x)"

fun emap :: "('a \<Rightarrow> error + 'b) \<Rightarrow> 'a list \<Rightarrow> error + 'b list" where
  "emap f [] = Inr []"
| "emap f (x # xs) =
     (case f x of
        Inl e \<Rightarrow> Inl e
      | Inr y \<Rightarrow> (case emap f xs of Inl e \<Rightarrow> Inl e | Inr ys \<Rightarrow> Inr (y # ys)))"

subsection \<open>Descriptors and the numpy operations used on them\<close>

text \<open>
  A descriptor is a numpy array with one axis (global fingerprint) or two axes (one row
  per site). Arrays with no axis or with more than two are not produced by the
  fingerprint calculator and have no constructor here.
\<close>

datatype descriptor = Vec "real list" | Mat "real list list"


text \<open>\<open>desc.shape[0]\<close>\<close>

fun shape0 :: "descriptor \<Rightarrow> nat" where
  "shape0 (Vec v) = length v"
| "shape0 (Mat m) = length m"



text \<open>
  \<open>vec1 - vec2\<close> on one-axis arrays: elementwise when the lengths agree, broadcast when
  one side has length one, \<open>ValueError\<close> otherwise.
\<close>

definition np_sub :: "real list \<Rightarrow> real list \<Rightarrow> error + real list" where
  "np_sub a b =
     (if length a = length b then Inr (map (\<lambda>(x, y). x - y) (zip a b))
      else if length a = 1 then Inr (map (\<lambda>y. hd a - y) b)
      else if length b = 1 then Inr (map (\<lambda>x. x - hd b) a)
      else Inl ValueError)"

definition np_dot :: "real list \<Rightarrow> real list \<Rightarrow> real" where
  "np_dot a b = sum_list (map (\<lambda>(x, y). x * y) (zip a b))"

text \<open>
  \<open>np.linalg.norm\<close> of a one-axis array, in exact arithmetic. In float64 the sum of
  squares can overflow, and the norm is then \<open>inf\<close>; that value has no counterpart here.
\<close>

definition np_norm :: "real list \<Rightarrow> real" where
  "np_norm v = sqrt (sum_list (map (\<lambda>x. \<bar>x\<bar> ^ 2) v))"

subsection \<open>The assignment solver\<close>

primrec interleave :: "'a \<Rightarrow> 'a list \<Rightarrow> 'a list list" where
  "interleave x [] = [[x]]"
| "interleave x (y # ys) = (x # y # ys) # map ((#) y) (interleave x ys)"

primrec perms :: "'a list \<Rightarrow> 'a list list" where
  "perms [] = [[]]"
| "perms (x # xs) = concat (map (interleave x) (perms xs))"

text \<open>Total cost of matching row \<open>i\<close> with column \<open>p ! i\<close>.\<close>

definition assignment_cost :: "real list list \<Rightarrow> nat list \<Rightarrow> real" where
  "assignment_cost C p = sum_list (map (\<lambda>(i, j). C ! i ! j) (zip [0..<length C] p))"

text \<open>
  \<open>scipy.optimize.linear_sum_assignment\<close> is a library routine, called here on square
  matrices only (\<open>_costmatrix\<close> asserts equal row counts). By its contract it returns the
  row indices \<open>0 .. n-1\<close> and a column permutation of least total cost. The model takes
  the first least-cost permutation of an exhaustive enumeration; which optimum the
  library returns among several of equal cost is not part of its contract, and the
  statements below use the least cost only. The library raises \<open>ValueError\<close> on a matrix
  with \<open>nan\<close> entries or without an assignment of finite cost; the cost matrices of the
  model have real entries, so that path is not represented, and what is proved of the
  chosen assignment holds for cost matrices of finite entries.
\<close>

definition linear_sum_assignment :: "real list list \<Rightarrow> nat list \<times> nat list" where
  "linear_sum_assignment C =
     ([0..<length C], arg_min_list (assignment_cost C) (perms [0..<length C]))"

subsection \<open>\<open>Minimahopping._costmatrix\<close> and \<open>Minimahopping.fp_distance\<close>\<close>

definition costmatrix :: "real list list \<Rightarrow> real list list \<Rightarrow> error + real list list" where
  "costmatrix desc1 desc2 =
     (if length desc1 \<noteq> length desc2 then Inl AssertionError
      else emap (\<lambda>vec1. emap (\<lambda>vec2. ebind (np_sub vec1 vec2) (\<lambda>d. Inr (np_norm d))) desc2) desc1)"

text \<open>The accumulation \<open>fp_dist += np.dot(d, d)\<close> over the matched index pairs.\<close>

fun matched_sq :: "real list list \<Rightarrow> real list list \<Rightarrow> (nat \<times> nat) list \<Rightarrow> real \<Rightarrow> error + real" where
  "matched_sq desc1 desc2 [] fp_dist = Inr fp_dist"
| "matched_sq desc1 desc2 ((index1, index2) # rest) fp_dist =
     (case np_sub (desc1 ! index1) (desc2 ! index2) of
        Inl e \<Rightarrow> Inl e
      | Inr d \<Rightarrow> matched_sq desc1 desc2 rest (fp_dist + np_dot d d))"

fun fp_distance :: "descriptor \<Rightarrow> descriptor \<Rightarrow> error + real" where
  "fp_distance (Vec a) (Vec b) = ebind (np_sub a b) (\<lambda>d. Inr (np_norm d))"
| "fp_distance (Mat a) (Mat b) =
     ebind (costmatrix a b) (\<lambda>costmat.
       let ans_pos = linear_sum_assignment costmat in
       ebind (matched_sq a b (zip (fst ans_pos) (snd ans_pos)) 0) (\<lambda>fp_dist.
         Inr (sqrt fp_dist)))"
| "fp_distance (Vec a) (Mat b) = Inl AssertionError"
| "fp_distance (Mat a) (Vec b) = Inl AssertionError"

subsection \<open>Structures, minimum records and the energy order\<close>

text \<open>
  An ASE \<open>Atoms\<close> object is external; the controller reads its potential energy
  (\<open>get_potential_energy()\<close>), whether it is periodic (\<open>True in atoms.pbc\<close>) and its
  number of atoms (\<open>len(atoms)\<close>). \<open>deepcopy\<close> is the identity on values.
\<close>

record atoms =
  get_potential_energy :: real
  pbc :: bool
  n_atoms :: nat
  positions :: "real list"

datatype tag = Initial | Same | Inter | Accepted | Rejected | NA

text \<open>The class \<open>Minimum\<close> (module \<open>minimum\<close>), as \<open>mh.py\<close> constructs and reads it.\<close>

record minimum =
  m_atoms :: atoms
  n_visit :: int
  fingerprint :: descriptor
  m_T :: real
  m_ediff :: real
  m_acc_rej :: tag

definition energy :: "minimum \<Rightarrow> real" where
  "energy m = get_potential_energy (m_atoms m)"

text \<open>
  Modelled from the spec: \<open>Minimum.__lt__\<close>, the comparison that \<open>bisect\<close> and
  \<open>list.sort\<close> call; the module \<open>minimum\<close> is not among the sources. The spec orders
  records by \<open>potential_energy()\<close>, ascending, and has them immutable once created.
\<close>

definition minimum_lt :: "minimum \<Rightarrow> minimum \<Rightarrow> bool" where
  "minimum_lt x y = (energy x < energy y)"

subsection \<open>\<open>bisect.bisect\<close>, \<open>bisect.insort\<close> and \<open>list.sort\<close>\<close>

text \<open>The loop of the standard library's \<open>bisect_right\<close>.\<close>

function bisect_loop :: "minimum list \<Rightarrow> minimum \<Rightarrow> nat \<Rightarrow> nat \<Rightarrow> nat" where
  "bisect_loop a x lo hi =
     (if lo < hi then
        (let mid = (lo + hi) div 2 in
         if minimum_lt x (a ! mid) then bisect_loop a x lo mid
         else bisect_loop a x (mid + 1) hi)
      else lo)"
  by pat_completeness auto
termination
  by (relation "measure (\<lambda>(a, x, lo, hi). hi - lo)") auto

declare bisect_loop.simps [simp del]

definition bisect :: "minimum list \<Rightarrow> minimum \<Rightarrow> nat" where
  "bisect a x = bisect_loop a x 0 (length a)"

text \<open>\<open>bisect.insort(a, x)\<close> is \<open>a.insert(bisect.bisect(a, x), x)\<close>.\<close>

definition bisect_insort :: "minimum list \<Rightarrow> minimum \<Rightarrow> minimum list" where
  "bisect_insort a x = (let lo = bisect a x in take lo a @ [x] @ drop lo a)"

text \<open>\<open>list.sort()\<close> is a stable sort by \<open>__lt__\<close>.\<close>

definition list_sort :: "minimum list \<Rightarrow> minimum list" where
  "list_sort a = sort_key energy a"

definition sorted_by_energy :: "minimum list \<Rightarrow> bool" where
  "sorted_by_energy a = sorted (map energy a)"

subsection \<open>Settings and search state\<close>

text \<open>
  The settings the controller itself reads. \<open>run_time\<close> is \<open>None\<close> for \<open>"infinit"\<close> and
  otherwise the four fields of \<open>D-HH:MM:SS\<close>. The parameters handed on to the
  fingerprint, the softening, the MD and the optimizer are left to the collaborators.
\<close>

record settings =
  T0 :: real
  beta_decrease :: real
  beta_increase :: real
  Ediff0 :: real
  alpha_a :: real
  alpha_r :: real
  enhanced_feedback :: bool
  energy_threshold :: real
  n_poslow :: int
  minima_threshold :: real
  restart_optim :: bool
  start_lowest :: bool
  new_start :: bool
  run_time :: "(int \<times> int \<times> int \<times> int) option"

definition default_settings :: settings where
  "default_settings =
     \<lparr> T0 = 2000, beta_decrease = 1 / 1.1, beta_increase = 1.1, Ediff0 = 0.01,
       alpha_a = 0.95, alpha_r = 1.05, enhanced_feedback = False,
       energy_threshold = 0.00005, n_poslow = 30, minima_threshold = 0.005,
       restart_optim = False, start_lowest = False, new_start = False,
       run_time = None \<rparr>"

datatype warning =
    NoAcceptedMinima
  | FingerprintsRecalculated
  | EnergyThresholdBelowNoise

text \<open>
  One line of \<open>history.dat\<close>: energy, visit count, temperature, Ediff, the three
  fractions and the tag. A number is in the file as the decimal text of its format,
  \<open>{:1.9f}\<close>, \<open>{:1.5f}\<close> or \<open>{:1.2f}\<close>, and a line holds the values of these texts.
\<close>

type_synonym history_line = "real \<times> int \<times> real \<times> real \<times> real \<times> real \<times> real \<times> tag"

text \<open>
  The value of \<open>"{:1.nf}".format(x)\<close>: \<open>x\<close> rounded to \<open>n\<close> decimals, to the nearest and
  on a tie to the even last digit.
\<close>

definition round_half_even :: "real \<Rightarrow> int" where
  "round_half_even x =
     (let f = \<lfloor>x\<rfloor>; d = x - real_of_int f
      in if d < 1 / 2 then f else if 1 / 2 < d then f + 1 else if even f then f else f + 1)"

definition fmt :: "nat \<Rightarrow> real \<Rightarrow> real" where
  "fmt n x = real_of_int (round_half_even (x * 10 ^ n)) / 10 ^ n"

text \<open>
  The object's attributes and the files under \<open>output/\<close> and \<open>minima/\<close>. A file is
  \<open>None\<close> while it does not exist. \<open>fp\<close> is first assigned by the escape loop, which
  precedes every read of it.

  Structures are objects, and the source copies them (\<open>deepcopy\<close>) wherever it stores one,
  with one exception: under \<open>start_lowest\<close> the restart binds \<open>self._atoms\<close> to the
  structure object of the lowest archived record itself. \<open>atoms_ref\<close> is \<open>Some k\<close> while
  \<open>self._atoms\<close> is the object \<open>all_minima_sorted[k].atoms\<close>, and \<open>None\<close> while it is an
  object of its own.
\<close>

record mh =
  cfg :: settings
  atoms :: atoms
  atoms_cur :: atoms
  temperature :: real
  Ediff :: real
  counter :: int
  fp :: descriptor
  n_visits :: int
  acc_rej :: tag
  all_minima :: "minimum list"
  all_minima_sorted :: "minimum list"
  unique_minima :: "atoms list"
  accepted_minima :: "atoms list"
  intermediate_minima :: "atoms list"
  i_step :: int
  n_min :: int
  n_unique :: int
  n_notunique :: int
  n_same :: int
  warnings :: "warning list"
  acc_extxyz :: "atoms list option"
  min_extxyz :: "atoms list option"
  locm_extxyz :: "atoms list option"
  fp_dat :: "real list list option"
  history_dat :: "history_line list option"
  poslow :: "atoms list"
  atoms_ref :: "nat option"

text \<open>
  The external collaborators: the fingerprint of a structure, the local optimization of
  \<open>_restart_opt\<close>, the relaxed structures (with the optimizer's noise estimate) that
  softening, MD and optimization deliver in the escape loop of the hop with a given
  counter, and the wall-clock seconds since startup read when the counter has a given
  value.
\<close>

record world =
  get_OMFP :: "atoms \<Rightarrow> descriptor"
  restart_opt :: "atoms \<Rightarrow> atoms"
  md_opt :: "int \<Rightarrow> (atoms \<times> real) list"
  elapsed :: "int \<Rightarrow> real"

text \<open>Appending to a file creates it.\<close>

definition append_file :: "'a list option \<Rightarrow> 'a list \<Rightarrow> 'a list option" where
  "append_file f xs = (case f of None \<Rightarrow> Some xs | Some ys \<Rightarrow> Some (ys @ xs))"

text \<open>\<open>Minimahopping.__init__\<close>, on the files found on disk.\<close>

definition init ::
  "settings \<Rightarrow> atoms \<Rightarrow> atoms list option \<Rightarrow> atoms list option \<Rightarrow> real list list option
     \<Rightarrow> history_line list option \<Rightarrow> mh" where
  "init c a f_acc f_min f_fp f_history =
     \<lparr> cfg = c, atoms = a, atoms_cur = a, temperature = T0 c, Ediff = Ediff0 c, counter = 0,
       fp = Vec [], n_visits = 0, acc_rej = NA, all_minima = [], all_minima_sorted = [],
       unique_minima = [], accepted_minima = [], intermediate_minima = [], i_step = 0,
       n_min = 0, n_unique = 0, n_notunique = 0, n_same = 0, warnings = [],
       acc_extxyz = f_acc, min_extxyz = f_min, locm_extxyz = None, fp_dat = f_fp,
       history_dat = f_history, poslow = [], atoms_ref = None \<rparr>"

subsection \<open>\<open>_history_log\<close>, \<open>_hoplog\<close>, \<open>_write_fp\<close>, \<open>_write_poslow\<close>\<close>

definition history_log :: "mh \<Rightarrow> error + mh" where
  "history_log s =
     (if n_min s = 0 then Inl ZeroDivisionError
      else
        (let notunique_frac = real_of_int (n_notunique s) / real_of_int (n_min s);
             same_frac = real_of_int (n_same s) / real_of_int (n_min s);
             unique_frac = 1 - (notunique_frac + same_frac);
             history_msg = (fmt 9 (get_potential_energy (atoms s)), n_visits s,
                            fmt 5 (temperature s), fmt 5 (Ediff s), fmt 2 same_frac,
                            fmt 2 notunique_frac, fmt 2 unique_frac, acc_rej s)
         in Inr (s\<lparr>history_dat := append_file (history_dat s) [history_msg], n_visits := 0\<rparr>)))"

definition hoplog :: "mh \<Rightarrow> mh" where
  "hoplog s = s\<lparr>i_step := i_step s + 1\<rparr>"

text \<open>
  \<open>_write_fp\<close> writes one line per site for a periodic structure and a single line
  otherwise; the fingerprint of a periodic structure is the two-axis one.
\<close>

fun fp_lines :: "descriptor \<Rightarrow> real list list" where
  "fp_lines (Mat m) = m"
| "fp_lines (Vec v) = [v]"

definition write_fp :: "mh \<Rightarrow> mh" where
  "write_fp s = s\<lparr>fp_dat := append_file (fp_dat s) (fp_lines (fp s))\<rparr>"

fun poslow_loop :: "int \<Rightarrow> int \<Rightarrow> minimum list \<Rightarrow> atoms list" where
  "poslow_loop cap i_poslow [] = []"
| "poslow_loop cap i_poslow (s # rest) =
     (let written = (if n_visit s = 1 then [m_atoms s] else []);
          i_poslow' = (if n_visit s = 1 then i_poslow + 1 else i_poslow)
      in written @ (if i_poslow' - 1 > cap then [] else poslow_loop cap i_poslow' rest))"

text \<open>File \<open>min00000k\<close> is entry \<open>k\<close> of \<open>poslow\<close>; files not rewritten stay.\<close>

definition write_poslow :: "mh \<Rightarrow> mh" where
  "write_poslow s =
     (let new = poslow_loop (n_poslow (cfg s)) 0 (all_minima_sorted s)
      in s\<lparr>poslow := new @ drop (length new) (poslow s)\<rparr>)"

subsection \<open>\<open>Minimahopping._escape\<close>\<close>

text \<open>
  \<open>fp_distance(...) / fp.shape[0]\<close> is a numpy float division: with no rows it gives
  \<open>inf\<close> or \<open>nan\<close> (here \<open>None\<close>), and a comparison \<open><\<close> with either is false.
\<close>

definition np_div :: "real \<Rightarrow> nat \<Rightarrow> real option" where
  "np_div d n = (if n = 0 then None else Some (d / real n))"

definition np_less :: "real option \<Rightarrow> real \<Rightarrow> bool" where
  "np_less x thr = (case x of None \<Rightarrow> False | Some v \<Rightarrow> v < thr)"

definition check_energy_threshold :: "real \<Rightarrow> mh \<Rightarrow> mh" where
  "check_energy_threshold noise s =
     (if energy_threshold (cfg s) < noise
      then s\<lparr>warnings := warnings s @ [EnergyThresholdBelowNoise]\<rparr> else s)"

text \<open>
  \<open>self._atoms.set_positions(...)\<close> and \<open>set_cell\<close> change the object in place: the
  structure of an archived record that is the same object changes with it.
\<close>

definition mutate_atoms :: "atoms \<Rightarrow> mh \<Rightarrow> mh" where
  "mutate_atoms a s =
     (case atoms_ref s of
        None \<Rightarrow> s\<lparr>atoms := a\<rparr>
      | Some k \<Rightarrow>
          s\<lparr>atoms := a,
            all_minima_sorted :=
              (if k < length (all_minima_sorted s)
               then (all_minima_sorted s)[k := (all_minima_sorted s ! k)\<lparr>m_atoms := a\<rparr>]
               else all_minima_sorted s)\<rparr>)"

text \<open>
  The while loop of \<open>_escape\<close>. Each pass takes the next relaxed structure from the
  collaborators; when none is left and the loop has not been left, the run is still in
  the loop (\<open>OutOfFuel\<close>).
\<close>

fun escape_loop ::
  "world \<Rightarrow> descriptor \<Rightarrow> real \<Rightarrow> real option \<Rightarrow> real \<Rightarrow> int \<Rightarrow> (atoms \<times> real) list \<Rightarrow> mh
     \<Rightarrow> error + mh" where
  "escape_loop w fp_in energy_in escape_d escape_energy i_steps outs s =
     (if np_less escape_d (minima_threshold (cfg s)) \<or> escape_energy < energy_threshold (cfg s) then
        (case outs of
           [] \<Rightarrow> Inl OutOfFuel
         | out # rest \<Rightarrow>
             (case (if i_steps > 0
                    then (case history_log (s\<lparr>n_same := n_same s + 1, acc_rej := Same\<rparr>) of
                            Inl e \<Rightarrow> Inl e
                          | Inr s1 \<Rightarrow> Inr (s1\<lparr>temperature := temperature s1 * 1.05\<rparr>))
                    else Inr s) of
                Inl e \<Rightarrow> Inl e
              | Inr s1 \<Rightarrow>
                  (let s2 = check_energy_threshold (snd out) (mutate_atoms (fst out) s1);
                       fp_out = get_OMFP w (atoms s2);
                       energy_out = get_potential_energy (atoms s2);
                       s3 = s2\<lparr>fp := fp_out\<rparr>
                   in case fp_distance fp_in fp_out of
                        Inl e \<Rightarrow> Inl e
                      | Inr d \<Rightarrow>
                          escape_loop w fp_in energy_in (np_div d (shape0 fp_out))
                            \<bar>energy_in - energy_out\<bar> (i_steps + 1) rest
                            (s3\<lparr>locm_extxyz := append_file (locm_extxyz s3) [atoms s3],
                                n_min := n_min s3 + 1\<rparr>))))
      else Inr s)"

declare escape_loop.simps [simp del]

definition escape :: "world \<Rightarrow> mh \<Rightarrow> error + mh" where
  "escape w s =
     (let fp_in = get_OMFP w (atoms s);
          energy_in = get_potential_energy (atoms s)
      in ebind (escape_loop w fp_in energy_in (Some 0) 0 0 (md_opt w (counter s)) s) (\<lambda>s1.
           history_log (s1\<lparr>intermediate_minima := intermediate_minima s1 @ [atoms s1],
                           acc_rej := Inter\<rparr>)))"

subsection \<open>\<open>Minimahopping._acc_rej_step\<close>\<close>

text \<open>
  One pass of the for loop, on the search state and the locals \<open>ediff_acc\<close> and
  \<open>ediff_rej\<close> (\<open>None\<close> while unbound).
\<close>

definition acc_rej_candidate ::
  "real \<Rightarrow> atoms \<Rightarrow> mh \<times> real option \<times> real option \<Rightarrow> mh \<times> real option \<times> real option" where
  "acc_rej_candidate e_pot_cur atom st =
     (case st of (s, ediff_acc, ediff_rej) \<Rightarrow>
        (let e_pot = get_potential_energy atom in
         if e_pot - e_pot_cur < Ediff s then
           (s\<lparr>Ediff := Ediff s * alpha_a (cfg s), atoms_cur := atom, acc_rej := Accepted,
               intermediate_minima := []\<rparr>,
            Some (e_pot - e_pot_cur), ediff_rej)
         else
           (s\<lparr>Ediff := Ediff s * alpha_r (cfg s), acc_rej := Rejected\<rparr>,
            ediff_acc, Some (e_pot - e_pot_cur))))"

text \<open>
  The for loop runs over the list object bound to \<open>intermediate_minima\<close> when it starts;
  rebinding the attribute inside the loop does not shorten the iteration. The log message
  after the loop reads \<open>ediff_acc\<close> or \<open>ediff_rej\<close>.
\<close>

definition acc_rej_step :: "mh \<Rightarrow> error + mh" where
  "acc_rej_step s =
     (let e_pot_cur = get_potential_energy (atoms_cur s) in
      case fold (acc_rej_candidate e_pot_cur) (intermediate_minima s) (s, None, None) of
        (s', ediff_acc, ediff_rej) \<Rightarrow>
          if acc_rej s' = Accepted
          then (case ediff_acc of None \<Rightarrow> Inl UnboundLocalError | Some _ \<Rightarrow> Inr s')
          else (case ediff_rej of None \<Rightarrow> Inl UnboundLocalError | Some _ \<Rightarrow> Inr s'))"

subsection \<open>\<open>Minimahopping._in_history_fp\<close>\<close>

function backward ::
  "settings \<Rightarrow> minimum list \<Rightarrow> real \<Rightarrow> descriptor \<Rightarrow> real \<Rightarrow> int \<Rightarrow> int \<Rightarrow> error + real \<times> int" where
  "backward c sorted_a epot fp1 energy_difference i_compare i =
     (if energy_difference < energy_threshold c then
        (if i_compare - 1 < 0 then Inr (energy_difference, i)
         else
           (let sm = sorted_a ! nat (i_compare - 1);
                fp2 = fingerprint sm
            in case fp_distance fp1 fp2 of
                 Inl e \<Rightarrow> Inl e
               | Inr d \<Rightarrow>
                   backward c sorted_a epot fp1 \<bar>get_potential_energy (m_atoms sm) - epot\<bar>
                     (i_compare - 1)
                     (if np_less (np_div d (shape0 fp2)) (minima_threshold c) then i + 1 else i)))
      else Inr (energy_difference, i))"
  by pat_completeness auto
termination
  by (relation "measure (\<lambda>(c, sorted_a, epot, fp1, energy_difference, i_compare, i). nat i_compare)")
     auto

declare backward.simps [simp del]

function forward ::
  "settings \<Rightarrow> minimum list \<Rightarrow> real \<Rightarrow> descriptor \<Rightarrow> real \<Rightarrow> int \<Rightarrow> int \<Rightarrow> error + real \<times> int" where
  "forward c sorted_a epot fp1 energy_difference i_compare i =
     (if energy_difference < energy_threshold c then
        (if i_compare + 1 + 1 > int (length sorted_a) then Inr (energy_difference, i)
         else
           (let sm = sorted_a ! nat (i_compare + 1);
                fp2 = fingerprint sm
            in case fp_distance fp1 fp2 of
                 Inl e \<Rightarrow> Inl e
               | Inr d \<Rightarrow>
                   forward c sorted_a epot fp1 \<bar>get_potential_energy (m_atoms sm) - epot\<bar>
                     (i_compare + 1)
                     (if np_less (np_div d (shape0 fp2)) (minima_threshold c) then i + 1 else i)))
      else Inr (energy_difference, i))"
  by pat_completeness auto
termination
  by (relation "measure (\<lambda>(c, sorted_a, epot, fp1, energy_difference, i_compare, i).
                   nat (int (length sorted_a) - i_compare))")
     auto

declare forward.simps [simp del]

text \<open>
  The forward loop starts with the \<open>_energy_difference\<close> the backward loop ended with,
  and with \<open>_i_compare = _i_start\<close>, which it increments before its first read.
\<close>

definition in_history_fp :: "mh \<Rightarrow> error + int" where
  "in_history_fp s =
     (let mini = \<lparr> m_atoms = atoms s, n_visit = - 1, fingerprint = fp s, m_T = temperature s,
                   m_ediff = Ediff s, m_acc_rej = acc_rej s \<rparr>;
          i_start = int (bisect (all_minima_sorted s) mini);
          epot = get_potential_energy (atoms s);
          fp1 = fp s
      in ebind (backward (cfg s) (all_minima_sorted s) epot fp1 0 i_start 1) (\<lambda>(energy_difference, i).
           ebind (forward (cfg s) (all_minima_sorted s) epot fp1 energy_difference i_start i)
             (\<lambda>(energy_difference', i'). Inr i')))"

subsection \<open>\<open>Minimahopping._adj_temperature\<close> and \<open>Minimahopping._update_data\<close>\<close>

definition adj_temperature :: "mh \<Rightarrow> mh" where
  "adj_temperature s =
     (if n_visits s > 1 then
        (let s1 = s\<lparr>n_notunique := n_notunique s + 1\<rparr> in
         if enhanced_feedback (cfg s1)
         then s1\<lparr>temperature := temperature s1 * beta_increase (cfg s1)
                                   * (1 + 1 * ln (real_of_int (n_visits s1)))\<rparr>
         else s1\<lparr>temperature := temperature s1 * beta_increase (cfg s1)\<rparr>)
      else
        (let s1 = s\<lparr>n_unique := n_unique s + 1\<rparr>;
             s2 = s1\<lparr>temperature := temperature s1 * beta_decrease (cfg s1)\<rparr>;
             s3 = s2\<lparr>unique_minima := unique_minima s2 @ [atoms s2]\<rparr>;
             s4 = s3\<lparr>min_extxyz := append_file (min_extxyz s3) [last (unique_minima s3)]\<rparr>
         in write_fp s4))"

text \<open>
  The new record holds a copy of the working structure. A record inserted at or before
  index \<open>k\<close> moves the record at \<open>k\<close> one place up.
\<close>

definition update_data :: "mh \<Rightarrow> mh" where
  "update_data s =
     (let s1 = (if acc_rej s = Accepted
                then (let s' = s\<lparr>accepted_minima := accepted_minima s @ [atoms s]\<rparr>
                      in s'\<lparr>acc_extxyz := append_file (acc_extxyz s') [last (accepted_minima s')]\<rparr>)
                else s);
          mini = \<lparr> m_atoms = atoms s1, n_visit = n_visits s1, fingerprint = fp s1,
                   m_T = temperature s1, m_ediff = Ediff s1, m_acc_rej = acc_rej s1 \<rparr>;
          lo = bisect (all_minima_sorted s1) mini
      in s1\<lparr>all_minima := all_minima s1 @ [mini],
            all_minima_sorted := bisect_insort (all_minima_sorted s1) mini,
            atoms_ref := map_option (\<lambda>k. if lo \<le> k then k + 1 else k) (atoms_ref s1)\<rparr>)"

subsection \<open>One hop of \<open>Minimahopping.__call__\<close>\<close>

text \<open>
  The body of the while loop up to and including \<open>self._counter += 1\<close>. Its last
  assignment binds \<open>self._atoms\<close> to a fresh copy of the current minimum.
\<close>

definition hop :: "world \<Rightarrow> mh \<Rightarrow> error + mh" where
  "hop w s =
     ebind (escape w s) (\<lambda>s1.
     ebind (acc_rej_step s1) (\<lambda>s2.
     let s3 = hoplog s2 in
     ebind (in_history_fp s3) (\<lambda>n.
     let s4 = s3\<lparr>n_visits := n\<rparr>;
         s5 = adj_temperature s4;
         s6 = update_data s5;
         s7 = write_poslow s6
     in ebind (history_log s7) (\<lambda>s8.
          let s9 = s8\<lparr>atoms := atoms_cur s8, atoms_ref := None\<rparr>
          in Inr (s9\<lparr>counter := counter s9 + 1\<rparr>)))))"

subsection \<open>\<open>Minimahopping._startup\<close>\<close>

function chunks :: "nat \<Rightarrow> 'a list \<Rightarrow> 'a list list" where
  "chunks n xs = (if n = 0 \<or> length xs < n then [] else take n xs # chunks n (drop n xs))"
  by pat_completeness auto
termination
  by (relation "measure (\<lambda>(n, xs). length xs)") auto

declare chunks.simps [simp del]

text \<open>
  \<open>_read_fp\<close>: for a periodic structure every \<open>len(atoms)\<close> lines make one fingerprint
  (\<open>(i+1) % nat\<close> divides by zero on the first line when there are no atoms), otherwise
  every line is one.
\<close>

definition read_fp :: "mh \<Rightarrow> error + descriptor list" where
  "read_fp s =
     (case fp_dat s of
        None \<Rightarrow> Inl FileNotFoundError
      | Some lines \<Rightarrow>
          if pbc (atoms s) then
            (if lines \<noteq> [] \<and> n_atoms (atoms s) = 0 then Inl ZeroDivisionError
             else Inr (map Mat (chunks (n_atoms (atoms s)) lines)))
          else Inr (map Vec lines))"

definition archived :: "atoms \<Rightarrow> descriptor \<Rightarrow> minimum" where
  "archived atom f =
     \<lparr> m_atoms = atom, n_visit = 1, fingerprint = f, m_T = - 100, m_ediff = - 10, m_acc_rej = NA \<rparr>"

text \<open>
  The restart branch, in the order of the source: the working structure, the archive,
  and the reoptimization, sort, lowest structure and last line of the history.
\<close>

definition restart_structure :: "mh \<Rightarrow> atoms list \<Rightarrow> error + mh" where
  "restart_structure s unique_minima_l =
     (case acc_extxyz s of
        Some accepted_minima_l \<Rightarrow>
          (if accepted_minima_l = [] then Inl IndexError
           else Inr (s\<lparr>atoms := last accepted_minima_l\<rparr>))
      | None \<Rightarrow>
          (if unique_minima_l = [] then Inl IndexError
           else Inr (s\<lparr>warnings := warnings s @ [NoAcceptedMinima],
                       atoms := last unique_minima_l\<rparr>)))"

text \<open>
  Without \<open>acc.extxyz\<close> the working structure is the last element of the list read from
  \<open>min.extxyz\<close> itself, so the in-place reoptimization of that list under
  \<open>restart_optim\<close> reaches it too.
\<close>

definition restart_archive :: "world \<Rightarrow> bool \<Rightarrow> mh \<Rightarrow> atoms list \<Rightarrow> error + mh" where
  "restart_archive w is_acc_minima s1 unique_minima_l =
     (if fp_dat s1 \<noteq> None \<and> \<not> restart_optim (cfg s1) then
        ebind (read_fp s1) (\<lambda>fps.
          if length fps \<noteq> length unique_minima_l then Inl AssertionError
          else
            (let recs = map (\<lambda>(f, atom). archived atom f) (zip fps unique_minima_l)
             in Inr (s1\<lparr>all_minima := all_minima s1 @ recs,
                        all_minima_sorted := all_minima_sorted s1 @ recs\<rparr>)))
      else
        (let s2 = s1\<lparr>warnings := warnings s1 @ [FingerprintsRecalculated]\<rparr>;
             recs = map (\<lambda>atom.
                       let atom' = (if restart_optim (cfg s2) then restart_opt w atom else atom)
                       in archived atom' (get_OMFP w atom')) unique_minima_l;
             s2' = (if restart_optim (cfg s2) \<and> \<not> is_acc_minima
                    then s2\<lparr>atoms := restart_opt w (atoms s2)\<rparr> else s2)
         in Inr (s2'\<lparr>all_minima := all_minima s2' @ recs,
                     all_minima_sorted := all_minima_sorted s2' @ recs\<rparr>)))"

text \<open>
  With \<open>start_lowest\<close>, \<open>self._atoms = self.all_minima_sorted[0].atoms\<close> binds the
  working structure to the object of the record, without a copy. The temperature and
  the threshold are read back from the text of the last line of \<open>history.dat\<close>.
\<close>

definition restart_finish :: "world \<Rightarrow> mh \<Rightarrow> error + mh" where
  "restart_finish w s3 =
     (let s4 = (if restart_optim (cfg s3) then s3\<lparr>atoms := restart_opt w (atoms s3)\<rparr> else s3);
          s5 = s4\<lparr>all_minima_sorted := list_sort (all_minima_sorted s4)\<rparr>
      in ebind (if start_lowest (cfg s5) then
                  (case all_minima_sorted s5 of
                     [] \<Rightarrow> Inl IndexError
                   | m # _ \<Rightarrow> Inr (s5\<lparr>atoms := m_atoms m, atoms_ref := Some 0\<rparr>))
                else Inr s5) (\<lambda>s6.
           case history_dat s6 of
             None \<Rightarrow> Inl FileNotFoundError
           | Some history \<Rightarrow>
               if history = [] then Inl IndexError
               else
                 (case last history of
                    (e, nv, temp, ed, rest) \<Rightarrow> Inr (s6\<lparr>temperature := temp, Ediff := ed\<rparr>))))"

definition startup_restart :: "world \<Rightarrow> mh \<Rightarrow> error + mh" where
  "startup_restart w s =
     (case min_extxyz s of
        None \<Rightarrow> Inl FileNotFoundError
      | Some unique_minima_l \<Rightarrow>
          ebind (restart_structure s unique_minima_l) (\<lambda>s1.
          ebind (restart_archive w (acc_extxyz s \<noteq> None) s1 unique_minima_l) (\<lambda>s3.
            restart_finish w s3)))"

definition startup_new :: "world \<Rightarrow> mh \<Rightarrow> mh" where
  "startup_new w s =
     (let s1 = s\<lparr>atoms := restart_opt w (atoms s)\<rparr>
      in s1\<lparr>acc_extxyz := append_file (acc_extxyz s1) [atoms s1]\<rparr>)"

text \<open>
  \<open>is_files = {_is_history, _is_unique_minima}\<close> has one element exactly when the two
  flags agree. The archive lists are new and empty, so no record of them is the working
  structure.
\<close>

definition startup :: "world \<Rightarrow> mh \<Rightarrow> error + mh" where
  "startup w s0 =
     (let s = s0\<lparr>all_minima := [], all_minima_sorted := [], unique_minima := [],
                 accepted_minima := [], intermediate_minima := [], i_step := 0,
                 n_min := 1, n_unique := 0, n_notunique := 0, n_same := 0,
                 atoms_ref := None\<rparr>;
          is_unique_minima = (min_extxyz s \<noteq> None);
          is_history = (history_dat s \<noteq> None)
      in ebind (if is_unique_minima \<and> is_history then Inr (\<not> new_start (cfg s))
                else if is_history \<noteq> is_unique_minima then Inl AssertionError
                else Inr False) (\<lambda>is_restart.
         ebind (if is_restart then startup_restart w s else Inr (startup_new w s)) (\<lambda>s1.
           history_log (s1\<lparr>atoms_cur := atoms s1, n_visits := 1, acc_rej := Initial\<rparr>))))"

subsection \<open>The run driver \<open>Minimahopping.__call__\<close>\<close>

definition get_sec :: "int \<times> int \<times> int \<times> int \<Rightarrow> int" where
  "get_sec t = (case t of (nd, h, m, sec) \<Rightarrow> nd * 86400 + h * 3600 + m * 60 + sec)"

text \<open>
  How the driver ends: the budget of time is over (with the counter it prints), or the
  while loop is left (with the step count and the days, hours, minutes and seconds it
  prints).
\<close>

datatype summary = TimeOver int | RunTerminated int int int int int

definition run_terminated :: "int \<Rightarrow> real \<Rightarrow> summary" where
  "run_terminated totalsteps elapsed_time =
     (let day = \<lfloor>elapsed_time / (24 * 3600)\<rfloor>;
          e1 = elapsed_time - real_of_int day * (24 * 3600);
          hour = \<lfloor>e1 / 3600\<rfloor>;
          e2 = e1 - real_of_int hour * 3600;
          minutes = \<lfloor>e2 / 60\<rfloor>;
          e3 = e2 - real_of_int minutes * 60
      in RunTerminated totalsteps day hour minutes \<lfloor>e3\<rfloor>)"

function call_loop :: "world \<Rightarrow> int \<Rightarrow> mh \<Rightarrow> error + mh \<times> summary" where
  "call_loop w totalsteps s =
     (if counter s \<le> totalsteps then
        (case hop w s of
           Inl e \<Rightarrow> Inl e
         | Inr s' \<Rightarrow>
             (case run_time (cfg s') of
                Some t \<Rightarrow>
                  if elapsed w (counter s') > real_of_int (get_sec t)
                  then Inr (s', TimeOver (counter s'))
                  else call_loop w totalsteps s'
              | None \<Rightarrow> call_loop w totalsteps s'))
      else Inr (s, run_terminated totalsteps (elapsed w (counter s))))"
  by pat_completeness auto
termination
proof (relation "measure (\<lambda>(w, totalsteps, s). nat (totalsteps + 1 - counter s))")
  show "wf (measure (\<lambda>(w, totalsteps, s). nat (totalsteps + 1 - counter s)))"
    by simp
next
  have hl: "counter t' = counter t" if "history_log t = Inr t'" for t t'
    using that by (auto simp: history_log_def Let_def split: if_splits)
  have el: "counter t' = counter t"
    if "escape_loop w fp_in energy_in d e k outs t = Inr t'" for w fp_in energy_in d e k outs t t'
    using that
  proof (induction outs arbitrary: d e k t)
    case Nil
    then show ?case by (simp add: escape_loop.simps split: if_splits)
  next
    case (Cons out rest)
    show ?case
    proof (cases "np_less d (minima_threshold (cfg t)) \<or> e < energy_threshold (cfg t)")
      case False
      with Cons.prems show ?thesis by (simp add: escape_loop.simps)
    next
      case True
      with Cons.prems show ?thesis
        by (subst (asm) escape_loop.simps)
           (auto simp: Let_def check_energy_threshold_def mutate_atoms_def
                 split: sum.splits if_splits option.splits dest!: Cons.IH hl)
    qed
  qed
  have es: "counter t' = counter t" if "escape w t = Inr t'" for w t t'
    using that by (auto simp: escape_def ebind_def Let_def split: sum.splits dest!: el hl)
  have fo: "counter (fst (fold (acc_rej_candidate e) xs st)) = counter (fst st)" for e xs st
    by (induction xs arbitrary: st)
       (auto simp: acc_rej_candidate_def Let_def split: prod.splits)
  have ar: "counter t' = counter t" if "acc_rej_step t = Inr t'" for t t'
    using that fo [of "get_potential_energy (atoms_cur t)" "intermediate_minima t" "(t, None, None)"]
    by (auto simp: acc_rej_step_def Let_def split: prod.splits if_splits option.splits)
  have ad: "counter (adj_temperature t) = counter t" for t
    by (simp add: adj_temperature_def write_fp_def Let_def)
  have ud: "counter (update_data t) = counter t" for t
    by (simp add: update_data_def Let_def)
  have hop_counter: "counter t' = counter t + 1" if "hop w t = Inr t'" for w t t'
    using that
    by (auto simp: hop_def ebind_def Let_def hoplog_def write_poslow_def ad ud
             split: sum.splits dest!: es ar hl)
  fix w :: world and totalsteps :: int and s x2 :: mh
  assume "counter s \<le> totalsteps" "hop w s = Inr x2"
  then show "((w, totalsteps, x2), (w, totalsteps, s))
               \<in> measure (\<lambda>(w, totalsteps, s). nat (totalsteps + 1 - counter s))"
    using hop_counter [of w s x2] by simp
  then show "((w, totalsteps, x2), (w, totalsteps, s))
               \<in> measure (\<lambda>(w, totalsteps, s). nat (totalsteps + 1 - counter s))" .
qed

declare call_loop.simps [simp del]

text \<open>\<open>totalsteps\<close> defaults to \<open>None\<close>, which the first comparison rejects.\<close>

definition call :: "world \<Rightarrow> int option \<Rightarrow> mh \<Rightarrow> error + mh \<times> summary" where
  "call w totalsteps s0 =
     ebind (startup w s0) (\<lambda>s.
       case totalsteps of None \<Rightarrow> Inl TypeError | Some n \<Rightarrow> call_loop w n s)"

subsection \<open>Notions used in the statements\<close>

text \<open>The sum of the squared matched entries of a cost matrix.\<close>

definition assignment_sq_cost :: "real list list \<Rightarrow> nat list \<Rightarrow> real" where
  "assignment_sq_cost C p = sum_list (map (\<lambda>(i, j). (C ! i ! j)\<^sup>2) (zip [0..<length C] p))"

text \<open>
  Every candidate of the list fails the acceptance test of \<open>_acc_rej_step\<close>, each against
  the threshold as the rejections before it have left it.
\<close>

fun all_rejected :: "real \<Rightarrow> real \<Rightarrow> real \<Rightarrow> atoms list \<Rightarrow> bool" where
  "all_rejected e_pot_cur ediff a_r [] = True"
| "all_rejected e_pot_cur ediff a_r (atom # rest) =
     (\<not> get_potential_energy atom - e_pot_cur < ediff
      \<and> all_rejected e_pot_cur (ediff * a_r) a_r rest)"

subsection \<open>A worked run\<close>

text \<open>
  A toy system for evaluating the controller: one atom, not periodic, whose fingerprint
  is its position. The collaborators deliver one relaxed structure per hop: energy
  \<open>-1\<close> at position \<open>1\<close> in the first hop (accepted), energy \<open>5\<close> at position \<open>2\<close> in
  the second and energy \<open>6\<close> at position \<open>3\<close> in the third (both rejected). The run starts
  with no files on disk and the default settings.
\<close>

definition ex_atoms :: "real \<Rightarrow> real \<Rightarrow> atoms" where
  "ex_atoms e x = \<lparr> get_potential_energy = e, pbc = False, n_atoms = 1, positions = [x] \<rparr>"

definition ex_world :: world where
  "ex_world =
     \<lparr> get_OMFP = (\<lambda>a. Vec (positions a)), restart_opt = (\<lambda>a. a),
       md_opt = (\<lambda>k. if k = 0 then [(ex_atoms (- 1) 1, 0)]
                      else if k = 1 then [(ex_atoms 5 2, 0)]
                      else [(ex_atoms 6 3, 0)]),
       elapsed = (\<lambda>k. 90061 + real_of_int k) \<rparr>"

definition ex_init :: mh where
  "ex_init = init default_settings (ex_atoms 0 0) None None None None"

text \<open>The state after \<open>_startup\<close>, and the states the first hop goes through.\<close>

definition ex_s1 :: mh where
  "ex_s1 = \<lparr> cfg = default_settings, atoms = ex_atoms 0 0, atoms_cur = ex_atoms 0 0,
       temperature = 2000, Ediff = 0.01, counter = 0,
       fp = Vec [], n_visits = 0, acc_rej = Initial, all_minima = [], all_minima_sorted = [],
       unique_minima = [], accepted_minima = [], intermediate_minima = [], i_step = 0,
       n_min = 1, n_unique = 0, n_notunique = 0, n_same = 0, warnings = [],
       acc_extxyz = Some [ex_atoms 0 0], min_extxyz = None, locm_extxyz = None, fp_dat = None,
       history_dat = Some [(0, 1, 2000, 0.01, 0, 0, 1, Initial)], poslow = [],
       atoms_ref = None \<rparr>"

definition ex_s1e :: mh where
  "ex_s1e = ex_s1\<lparr> atoms := ex_atoms (- 1) 1, fp := Vec [1], locm_extxyz := Some [ex_atoms (- 1) 1],
       n_min := 2, intermediate_minima := [ex_atoms (- 1) 1], acc_rej := Inter,
       history_dat := Some [(0, 1, 2000, 0.01, 0, 0, 1, Initial), (- 1, 0, 2000, 0.01, 0, 0, 1, Inter)],
       n_visits := 0 \<rparr>"

definition ex_s1a :: mh where
  "ex_s1a = ex_s1e\<lparr> Ediff := 0.0095, atoms_cur := ex_atoms (- 1) 1, acc_rej := Accepted,
       intermediate_minima := [] \<rparr>"

definition ex_m1 :: minimum where
  "ex_m1 = \<lparr> m_atoms = ex_atoms (- 1) 1, n_visit = 1, fingerprint = Vec [1],
              m_T = 20000 / 11, m_ediff = 0.0095, m_acc_rej = Accepted \<rparr>"

definition ex_s1t :: mh where
  "ex_s1t = ex_s1a\<lparr> i_step := 1, n_visits := 1, n_unique := 1, temperature := 20000 / 11,
       unique_minima := [ex_atoms (- 1) 1], min_extxyz := Some [ex_atoms (- 1) 1],
       fp_dat := Some [[1]] \<rparr>"

definition ex_s1u :: mh where
  "ex_s1u = ex_s1t\<lparr> accepted_minima := [ex_atoms (- 1) 1],
       acc_extxyz := Some [ex_atoms 0 0, ex_atoms (- 1) 1],
       all_minima := [ex_m1], all_minima_sorted := [ex_m1] \<rparr>"

definition ex_s2 :: mh where
  "ex_s2 = ex_s1u\<lparr> poslow := [ex_atoms (- 1) 1],
       history_dat := Some [(0, 1, 2000, 0.01, 0, 0, 1, Initial), (- 1, 0, 2000, 0.01, 0, 0, 1, Inter),
                            (- 1, 1, 1818.18182, 0.0095, 0, 0, 1, Accepted)],
       n_visits := 0, counter := 1 \<rparr>"

text \<open>The second hop.\<close>

definition ex_s2e :: mh where
  "ex_s2e = ex_s2\<lparr> atoms := ex_atoms 5 2, fp := Vec [2],
       locm_extxyz := Some [ex_atoms (- 1) 1, ex_atoms 5 2], n_min := 3,
       intermediate_minima := [ex_atoms 5 2], acc_rej := Inter,
       history_dat := Some [(0, 1, 2000, 0.01, 0, 0, 1, Initial), (- 1, 0, 2000, 0.01, 0, 0, 1, Inter), (- 1, 1, 1818.18182, 0.0095, 0, 0, 1, Accepted), (5, 0, 1818.18182, 0.0095, 0, 0, 1, Inter)],
       n_visits := 0 \<rparr>"

definition ex_s2a :: mh where
  "ex_s2a = ex_s2e\<lparr> Ediff := 399 / 40000, acc_rej := Rejected \<rparr>"

definition ex_m2 :: minimum where
  "ex_m2 = \<lparr> m_atoms = ex_atoms 5 2, n_visit = 1, fingerprint = Vec [2],
              m_T = 200000 / 121, m_ediff = 399 / 40000, m_acc_rej = Rejected \<rparr>"

definition ex_s2t :: mh where
  "ex_s2t = ex_s2a\<lparr> i_step := 2, n_visits := 1, n_unique := 2, temperature := 200000 / 121,
       unique_minima := [ex_atoms (- 1) 1, ex_atoms 5 2],
       min_extxyz := Some [ex_atoms (- 1) 1, ex_atoms 5 2],
       fp_dat := Some [[1], [2]] \<rparr>"

definition ex_s2u :: mh where
  "ex_s2u = ex_s2t\<lparr> all_minima := [ex_m1, ex_m2], all_minima_sorted := [ex_m1, ex_m2] \<rparr>"

definition ex_s3 :: mh where
  "ex_s3 = ex_s2u\<lparr> poslow := [ex_atoms (- 1) 1, ex_atoms 5 2],
       history_dat := Some [(0, 1, 2000, 0.01, 0, 0, 1, Initial), (- 1, 0, 2000, 0.01, 0, 0, 1, Inter), (- 1, 1, 1818.18182, 0.0095, 0, 0, 1, Accepted), (5, 0, 1818.18182, 0.0095, 0, 0, 1, Inter), (5, 1, 1652.89256, 0.00998, 0, 0, 1, Rejected)],
       n_visits := 0, atoms := ex_atoms (- 1) 1, counter := 2 \<rparr>"

text \<open>The third hop.\<close>

definition ex_s3e :: mh where
  "ex_s3e = ex_s3\<lparr> atoms := ex_atoms 6 3, fp := Vec [3],
       locm_extxyz := Some [ex_atoms (- 1) 1, ex_atoms 5 2, ex_atoms 6 3], n_min := 4,
       intermediate_minima := [ex_atoms 5 2, ex_atoms 6 3], acc_rej := Inter,
       history_dat := Some [(0, 1, 2000, 0.01, 0, 0, 1, Initial), (- 1, 0, 2000, 0.01, 0, 0, 1, Inter), (- 1, 1, 1818.18182, 0.0095, 0, 0, 1, Accepted), (5, 0, 1818.18182, 0.0095, 0, 0, 1, Inter), (5, 1, 1652.89256, 0.00998, 0, 0, 1, Rejected), (6, 0, 1652.89256, 0.00998, 0, 0, 1, Inter)],
       n_visits := 0 \<rparr>"

definition ex_s3a :: mh where
  "ex_s3a = ex_s3e\<lparr> Ediff := 175959 / 16000000, acc_rej := Rejected \<rparr>"

definition ex_m3 :: minimum where
  "ex_m3 = \<lparr> m_atoms = ex_atoms 6 3, n_visit = 1, fingerprint = Vec [3],
              m_T = 2000000 / 1331, m_ediff = 175959 / 16000000, m_acc_rej = Rejected \<rparr>"

definition ex_s3t :: mh where
  "ex_s3t = ex_s3a\<lparr> i_step := 3, n_visits := 1, n_unique := 3, temperature := 2000000 / 1331,
       unique_minima := [ex_atoms (- 1) 1, ex_atoms 5 2, ex_atoms 6 3],
       min_extxyz := Some [ex_atoms (- 1) 1, ex_atoms 5 2, ex_atoms 6 3],
       fp_dat := Some [[1], [2], [3]] \<rparr>"

definition ex_s3u :: mh where
  "ex_s3u = ex_s3t\<lparr> all_minima := [ex_m1, ex_m2, ex_m3],
       all_minima_sorted := [ex_m1, ex_m2, ex_m3] \<rparr>"

definition ex_s4 :: mh where
  "ex_s4 = ex_s3u\<lparr> poslow := [ex_atoms (- 1) 1, ex_atoms 5 2, ex_atoms 6 3],
       history_dat := Some [(0, 1, 2000, 0.01, 0, 0, 1, Initial), (- 1, 0, 2000, 0.01, 0, 0, 1, Inter), (- 1, 1, 1818.18182, 0.0095, 0, 0, 1, Accepted), (5, 0, 1818.18182, 0.0095, 0, 0, 1, Inter), (5, 1, 1652.89256, 0.00998, 0, 0, 1, Rejected), (6, 0, 1652.89256, 0.00998, 0, 0, 1, Inter), (6, 1, 1502.6296, 0.011, 0, 0, 1, Rejected)],
       n_visits := 0, atoms := ex_atoms (- 1) 1, counter := 3 \<rparr>"

text \<open>
  Files for a restart: the history as the run above leaves it after its second hop; only
  \<open>min.extxyz\<close> present; a fingerprint cache with one record for two structures; no
  \<open>acc.extxyz\<close>; and no fingerprint cache.
\<close>

definition ex_history :: "history_line list" where
  "ex_history = [(0, 1, 2000, 0.01, 0, 0, 1, Initial), (- 1, 0, 2000, 0.01, 0, 0, 1, Inter),
                 (- 1, 1, 1818.18182, 0.0095, 0, 0, 1, Accepted),
                 (5, 0, 1818.18182, 0.0095, 0, 0, 1, Inter),
                 (5, 1, 1652.89256, 0.00998, 0, 0, 1, Rejected)]"




definition ex_nofp :: mh where
  "ex_nofp = init default_settings (ex_atoms 0 0) (Some [ex_atoms 0 0, ex_atoms (- 1) 1])
               (Some [ex_atoms (- 1) 1, ex_atoms 5 2]) None (Some ex_history)"

text \<open>
  A restart with \<open>start_lowest\<close>: \<open>min.extxyz\<close> holds the structures of energy \<open>5\<close> and
  \<open>-1\<close> in the order they were found, \<open>fp.dat\<close> their fingerprints, and the collaborators
  deliver the structure of energy \<open>6\<close> at position \<open>3\<close> in every hop. The states are those
  after \<open>_startup\<close>, and in the first hop after \<open>_escape\<close>, \<open>_acc_rej_step\<close>,
  \<open>_adj_temperature\<close>, \<open>_update_data\<close> and at its end.
\<close>

definition ex_world_lowest :: world where
  "ex_world_lowest =
     \<lparr> get_OMFP = (\<lambda>a. Vec (positions a)), restart_opt = (\<lambda>a. a),
       md_opt = (\<lambda>k. [(ex_atoms 6 3, 0)]),
       elapsed = (\<lambda>k. 90061 + real_of_int k) \<rparr>"

definition ex_lowest :: mh where
  "ex_lowest = init (default_settings\<lparr>start_lowest := True\<rparr>) (ex_atoms 0 0)
                 (Some [ex_atoms 0 0, ex_atoms (- 1) 1])
                 (Some [ex_atoms 5 2, ex_atoms (- 1) 1]) (Some [[2], [1]]) (Some ex_history)"

definition ex_l1 :: mh where
  "ex_l1 = \<lparr> cfg = default_settings\<lparr>start_lowest := True\<rparr>, atoms = ex_atoms (- 1) 1,
       atoms_cur = ex_atoms (- 1) 1, temperature = 1652.89256, Ediff = 0.00998, counter = 0,
       fp = Vec [], n_visits = 0, acc_rej = Initial,
       all_minima = [archived (ex_atoms 5 2) (Vec [2]), archived (ex_atoms (- 1) 1) (Vec [1])],
       all_minima_sorted = [archived (ex_atoms (- 1) 1) (Vec [1]), archived (ex_atoms 5 2) (Vec [2])],
       unique_minima = [], accepted_minima = [], intermediate_minima = [], i_step = 0,
       n_min = 1, n_unique = 0, n_notunique = 0, n_same = 0, warnings = [],
       acc_extxyz = Some [ex_atoms 0 0, ex_atoms (- 1) 1],
       min_extxyz = Some [ex_atoms 5 2, ex_atoms (- 1) 1], locm_extxyz = None,
       fp_dat = Some [[2], [1]],
       history_dat = Some (ex_history @ [(- 1, 1, 1652.89256, 0.00998, 0, 0, 1, Initial)]),
       poslow = [], atoms_ref = Some 0 \<rparr>"

definition ex_l1e :: mh where
  "ex_l1e = ex_l1\<lparr> atoms := ex_atoms 6 3,
       all_minima_sorted := [archived (ex_atoms 6 3) (Vec [1]), archived (ex_atoms 5 2) (Vec [2])],
       fp := Vec [3], locm_extxyz := Some [ex_atoms 6 3], n_min := 2,
       intermediate_minima := [ex_atoms 6 3], acc_rej := Inter,
       history_dat := Some (ex_history @ [(- 1, 1, 1652.89256, 0.00998, 0, 0, 1, Initial),
                                          (6, 0, 1652.89256, 0.00998, 0, 0, 1, Inter)]),
       n_visits := 0 \<rparr>"

definition ex_l1a :: mh where
  "ex_l1a = ex_l1e\<lparr> Ediff := 0.010479, acc_rej := Rejected \<rparr>"

definition ex_ml :: minimum where
  "ex_ml = \<lparr> m_atoms = ex_atoms 6 3, n_visit = 1, fingerprint = Vec [3],
              m_T = 1502.6296, m_ediff = 0.010479, m_acc_rej = Rejected \<rparr>"

definition ex_l1t :: mh where
  "ex_l1t = ex_l1a\<lparr> i_step := 1, n_visits := 1, n_unique := 1, temperature := 1502.6296,
       unique_minima := [ex_atoms 6 3],
       min_extxyz := Some [ex_atoms 5 2, ex_atoms (- 1) 1, ex_atoms 6 3],
       fp_dat := Some [[2], [1], [3]] \<rparr>"

definition ex_l1u :: mh where
  "ex_l1u = ex_l1t\<lparr>
       all_minima := [archived (ex_atoms 5 2) (Vec [2]), archived (ex_atoms (- 1) 1) (Vec [1]), ex_ml],
       all_minima_sorted := [archived (ex_atoms 6 3) (Vec [1]), archived (ex_atoms 5 2) (Vec [2]),
                             ex_ml] \<rparr>"

definition ex_l2 :: mh where
  "ex_l2 = ex_l1u\<lparr> poslow := [ex_atoms 6 3, ex_atoms 5 2, ex_atoms 6 3],
       history_dat := Some (ex_history @ [(- 1, 1, 1652.89256, 0.00998, 0, 0, 1, Initial),
                                          (6, 0, 1652.89256, 0.00998, 0, 0, 1, Inter),
                                          (6, 1, 1502.6296, 0.01048, 0, 0, 1, Rejected)]),
       n_visits := 0, atoms := ex_atoms (- 1) 1, atoms_ref := None, counter := 1 \<rparr>"

text \<open>
  States at the novelty lookup: the archive holds a record of energy \<open>1.00001\<close> at position
  \<open>1\<close>, and the hop has found position \<open>1\<close> again with energy \<open>1.0\<close>; in the second state
  a record of energy \<open>0\<close> lies below and a second duplicate of energy \<open>1.00002\<close> above.
\<close>

definition ex_dup :: mh where
  "ex_dup = ex_s1\<lparr> atoms := ex_atoms 1 1, fp := Vec [1],
       all_minima := [archived (ex_atoms 1.00001 1) (Vec [1])],
       all_minima_sorted := [archived (ex_atoms 1.00001 1) (Vec [1])] \<rparr>"

definition ex_dup3 :: mh where
  "ex_dup3 = ex_s1\<lparr> atoms := ex_atoms 1 1, fp := Vec [1],
       all_minima := [archived (ex_atoms 0 0) (Vec [0]), archived (ex_atoms 1.00001 1) (Vec [1]),
                      archived (ex_atoms 1.00002 1) (Vec [1])],
       all_minima_sorted := [archived (ex_atoms 0 0) (Vec [0]),
                             archived (ex_atoms 1.00001 1) (Vec [1]),
                             archived (ex_atoms 1.00002 1) (Vec [1])] \<rparr>"

section \<open>The fingerprint distance\<close>

subsection \<open>Auxiliary facts\<close>

lemma interleave_set_length:
  "p \<in> set (interleave x ys) \<Longrightarrow> set p = insert x (set ys) \<and> length p = Suc (length ys)"
  by (induction ys arbitrary: p) auto

lemma perms_set_length:
  "p \<in> set (perms xs) \<Longrightarrow> set p = set xs \<and> length p = length xs"
  by (induction xs arbitrary: p) (auto dest: interleave_set_length)

lemma perms_nonempty: "perms xs \<noteq> []"
proof (induction xs)
  case Nil
  show ?case by simp
next
  case (Cons x xs)
  then obtain q qs where "perms xs = q # qs" by (cases "perms xs") auto
  moreover have "interleave x q \<noteq> []" by (cases q) auto
  ultimately show ?case by simp
qed

lemma perms_distinct: "distinct xs \<Longrightarrow> p \<in> set (perms xs) \<Longrightarrow> distinct p"
  using perms_set_length [of p xs] by (metis card_distinct distinct_card)

lemma interleave_mem: "as @ x # bs \<in> set (interleave x (as @ bs))"
  by (induction as) (auto simp: image_iff intro: list.exhaust[of bs])

lemma perms_complete:
  "distinct xs \<Longrightarrow> distinct p \<Longrightarrow> set p = set xs \<Longrightarrow> p \<in> set (perms xs)"
proof (induction xs arbitrary: p)
  case Nil
  then show ?case by simp
next
  case (Cons x xs)
  from Cons.prems have "x \<in> set p" by auto
  then obtain as bs where p: "p = as @ x # bs" by (auto simp: in_set_conv_decomp)
  with Cons.prems have d: "distinct (as @ bs)" and nx: "x \<notin> set (as @ bs)" by auto
  from Cons.prems p nx have "set (as @ bs) = set xs" by auto
  with Cons.IH [OF _ d] Cons.prems have "as @ bs \<in> set (perms xs)" by simp
  with interleave_mem [of as x bs] show ?case unfolding p by auto
qed

lemma emap_Inr:
  "emap f xs = Inr ys \<Longrightarrow> length ys = length xs \<and> (\<forall>i<length xs. f (xs ! i) = Inr (ys ! i))"
proof (induction xs arbitrary: ys)
  case Nil
  then show ?case by simp
next
  case (Cons x xs)
  then show ?case
    by (auto simp: nth_Cons split: sum.splits nat.splits)
qed


lemma np_dot_norm: "np_dot d d = (np_norm d)\<^sup>2"
proof -
  have nn: "0 \<le> sum_list (map (\<lambda>x. \<bar>x\<bar>\<^sup>2) d)" by (rule sum_list_nonneg) auto
  have "np_dot d d = sum_list (map (\<lambda>x. \<bar>x\<bar>\<^sup>2) d)"
    by (induction d) (auto simp: np_dot_def power2_eq_square)
  with nn show ?thesis by (simp add: np_norm_def)
qed

lemma costmatrix_Inr:
  assumes "costmatrix a b = Inr C"
  shows "length a = length b \<and> length C = length a
         \<and> (\<forall>i<length a. \<forall>j<length b. \<exists>d. np_sub (a ! i) (b ! j) = Inr d \<and> C ! i ! j = np_norm d)"
proof -
  from assms have len: "length a = length b"
    and em: "emap (\<lambda>vec1. emap (\<lambda>vec2. ebind (np_sub vec1 vec2) (\<lambda>d. Inr (np_norm d))) b) a = Inr C"
    by (auto simp: costmatrix_def split: if_splits)
  from emap_Inr [OF em] have lc: "length C = length a"
    and rows: "\<forall>i<length a. emap (\<lambda>vec2. ebind (np_sub (a ! i) vec2) (\<lambda>d. Inr (np_norm d))) b = Inr (C ! i)"
    by auto
  have "\<exists>d. np_sub (a ! i) (b ! j) = Inr d \<and> C ! i ! j = np_norm d"
    if "i < length a" "j < length b" for i j
  proof -
    from rows that have "emap (\<lambda>vec2. ebind (np_sub (a ! i) vec2) (\<lambda>d. Inr (np_norm d))) b = Inr (C ! i)"
      by simp
    from emap_Inr [OF this] that
    have "ebind (np_sub (a ! i) (b ! j)) (\<lambda>d. Inr (np_norm d)) = Inr (C ! i ! j)" by simp
    then show ?thesis by (auto simp: ebind_def split: sum.splits)
  qed
  with len lc show ?thesis by blast
qed

lemma matched_sq_sum:
  assumes "\<forall>(i, j) \<in> set ps. \<exists>d. np_sub (a ! i) (b ! j) = Inr d \<and> C ! i ! j = np_norm d"
  shows "matched_sq a b ps acc = Inr (acc + sum_list (map (\<lambda>(i, j). (C ! i ! j)\<^sup>2) ps))"
  using assms
proof (induction ps arbitrary: acc)
  case Nil
  show ?case by simp
next
  case (Cons q ps)
  obtain i j where q: "q = (i, j)" by (cases q)
  with Cons.prems obtain d where d: "np_sub (a ! i) (b ! j) = Inr d" "C ! i ! j = np_norm d"
    by auto
  from Cons.prems have "\<forall>(i, j) \<in> set ps. \<exists>d. np_sub (a ! i) (b ! j) = Inr d \<and> C ! i ! j = np_norm d"
    by simp
  from Cons.IH [OF this] d q show ?case
    by (simp add: np_dot_norm add.assoc)
qed

lemma lsa_perm: "snd (linear_sum_assignment C) \<in> set (perms [0..<length C])"
  by (simp add: linear_sum_assignment_def arg_min_list_in perms_nonempty)

lemma lsa_min:
  assumes "distinct p" "set p = {0..<length C}"
  shows "assignment_cost C (snd (linear_sum_assignment C)) \<le> assignment_cost C p"
proof -
  from assms have "p \<in> set (perms [0..<length C])"
    by (intro perms_complete) auto
  moreover have "assignment_cost C (snd (linear_sum_assignment C))
      = Min (assignment_cost C ` set (perms [0..<length C]))"
    by (simp add: linear_sum_assignment_def f_arg_min_list_f perms_nonempty)
  ultimately show ?thesis by simp
qed




text \<open>
  What \<open>fp_distance\<close> returns on two-axis descriptors whose cost matrix exists: the
  square root of the sum of the squared entries matched by a least-cost assignment.
\<close>

lemma fp_distance_Mat:
  assumes "costmatrix a b = Inr C"
  shows "fp_distance (Mat a) (Mat b)
           = Inr (sqrt (assignment_sq_cost C (snd (linear_sum_assignment C))))"
proof -
  let ?cols = "snd (linear_sum_assignment C)"
  from costmatrix_Inr [OF assms] have len: "length a = length b" and lc: "length C = length a"
    and ent: "\<forall>i<length a. \<forall>j<length b. \<exists>d. np_sub (a ! i) (b ! j) = Inr d \<and> C ! i ! j = np_norm d"
    by auto
  from perms_set_length [OF lsa_perm [of C]] have sc: "set ?cols = {0..<length a}"
    using lc by auto
  have pairs: "\<forall>(i, j) \<in> set (zip [0..<length C] ?cols).
                 \<exists>d. np_sub (a ! i) (b ! j) = Inr d \<and> C ! i ! j = np_norm d"
  proof clarify
    fix i j assume "(i, j) \<in> set (zip [0..<length C] ?cols)"
    then have "i \<in> set [0..<length C]" "j \<in> set ?cols" by (auto dest: set_zip_leftD set_zip_rightD)
    with sc lc len have "i < length a" "j < length b" by auto
    with ent show "\<exists>d. np_sub (a ! i) (b ! j) = Inr d \<and> C ! i ! j = np_norm d" by blast
  qed
  show ?thesis
    using assms matched_sq_sum [OF pairs, of 0]
    by (simp add: ebind_def Let_def assignment_sq_cost_def linear_sum_assignment_def)
qed

lemma perms_upt_2: "perms [0..<2] = [[0, 1], [1, 0]]"
  by (simp add: upt_rec)

lemma costmatrix_swap: "costmatrix [[0, 0], [1, 1]] [[1, 1], [0, 0]] = Inr [[sqrt 2, 0], [0, sqrt 2]]"
  by (simp add: costmatrix_def ebind_def np_sub_def np_norm_def)

lemma lsa_swap: "linear_sum_assignment [[sqrt 2, 0], [0, sqrt 2]] = ([0, 1], [1, 0])"
  by (simp add: linear_sum_assignment_def perms_upt_2 assignment_cost_def upt_rec)

subsection \<open>The scenario of the swapped rows\<close>

text \<open>
  Counterexample to C2 as stated: on \<open>[[0,0],[1,1]]\<close> and \<open>[[1,1],[0,0]]\<close> the distance
  is not \<open>2.0\<close>.
\<close>

theorem fp_distance_swapped_rows_not_two:
  "fp_distance (Mat [[0, 0], [1, 1]]) (Mat [[1, 1], [0, 0]]) \<noteq> Inr 2"
  by (simp add: fp_distance_Mat [OF costmatrix_swap] lsa_swap assignment_sq_cost_def upt_rec
           del: fp_distance.simps)

text \<open>
  C2, amended: the cost matrix of \<open>[[0,0],[1,1]]\<close> and \<open>[[1,1],[0,0]]\<close> has \<open>sqrt 2\<close> on
  the diagonal and \<open>0\<close> off it, the least-cost assignment matches site 0 with row 1 and
  site 1 with row 0, each matched pair is at distance \<open>0\<close>, and \<open>fp_distance\<close> returns
  \<open>0\<close>, as the contract asks of two descriptors that are row permutations of each other.
\<close>

theorem fp_distance_swapped_rows_zero:
  "costmatrix [[0, 0], [1, 1]] [[1, 1], [0, 0]] = Inr [[sqrt 2, 0], [0, sqrt 2]]
   \<and> linear_sum_assignment [[sqrt 2, 0], [0, sqrt 2]] = ([0, 1], [1, 0])
   \<and> [[sqrt 2, 0], [0, sqrt 2]] ! 0 ! 1 = 0 \<and> [[sqrt 2, 0], [0, sqrt 2]] ! 1 ! 0 = 0
   \<and> assignment_cost [[sqrt 2, 0], [0, sqrt 2]] [1, 0]
       < assignment_cost [[sqrt 2, 0], [0, sqrt 2]] [0, 1]
   \<and> fp_distance (Mat [[0, 0], [1, 1]]) (Mat [[1, 1], [0, 0]]) = Inr 0"
  by (simp add: fp_distance_Mat [OF costmatrix_swap] lsa_swap costmatrix_swap
                assignment_sq_cost_def assignment_cost_def upt_rec del: fp_distance.simps)

subsection \<open>Which objective the assignment minimizes\<close>

lemma sqrt_169: "sqrt 169 = 13"
  using real_sqrt_abs [of 13] by simp

lemma sqrt_225: "sqrt 225 = 15"
  using real_sqrt_abs [of 15] by simp

lemma sqrt_16: "sqrt 16 = 4"
  using real_sqrt_abs [of 4] by simp

lemma costmatrix_obtuse:
  "costmatrix [[0, 0], [4, 0]] [[0, 0], [- 5, 12]] = Inr [[0, 13], [4, 15]]"
  by (simp add: costmatrix_def ebind_def np_sub_def np_norm_def sqrt_169 sqrt_225 sqrt_16)

lemma lsa_obtuse: "linear_sum_assignment [[0, 13], [4, 15]] = ([0, 1], [0, 1])"
  by (simp add: linear_sum_assignment_def perms_upt_2 assignment_cost_def upt_rec)

text \<open>
  Counterexample to C3 as stated: for the rows \<open>(0,0), (4,0)\<close> against \<open>(0,0), (-5,12)\<close>
  the chosen assignment is the identity, with squared distances summing to \<open>225\<close>, while
  the other assignment has the smaller sum \<open>185\<close>; the returned \<open>15\<close> exceeds the root of
  the least sum of squares.
\<close>

theorem fp_distance_not_min_squares:
  "costmatrix [[0, 0], [4, 0]] [[0, 0], [- 5, 12]] = Inr [[0, 13], [4, 15]]
   \<and> snd (linear_sum_assignment [[0, 13], [4, 15]]) = [0, 1]
   \<and> assignment_cost [[0, 13], [4, 15]] [0, 1] < assignment_cost [[0, 13], [4, 15]] [1, 0]
   \<and> assignment_sq_cost [[0, 13], [4, 15]] [1, 0]
       < assignment_sq_cost [[0, 13], [4, 15]] (snd (linear_sum_assignment [[0, 13], [4, 15]]))
   \<and> fp_distance (Mat [[0, 0], [4, 0]]) (Mat [[0, 0], [- 5, 12]]) = Inr 15
   \<and> sqrt (assignment_sq_cost [[0, 13], [4, 15]] [1, 0]) < 15"
proof -
  have a: "assignment_sq_cost [[0, 13], [4, 15]] [Suc 0, 0] = 185"
    by (simp add: assignment_sq_cost_def upt_rec)
  have b: "assignment_sq_cost [[0, 13], [4, 15]] [0, Suc 0] = 225"
    by (simp add: assignment_sq_cost_def upt_rec)
  have "sqrt 185 < sqrt 225" by (rule real_sqrt_less_mono) simp
  then have c: "sqrt 185 < 15" unfolding sqrt_225 .
  show ?thesis
    using c
    by (simp add: fp_distance_Mat [OF costmatrix_obtuse] lsa_obtuse costmatrix_obtuse a b sqrt_225
                  assignment_cost_def upt_rec
             del: fp_distance.simps)
qed

text \<open>
  C3, amended: for two-axis descriptors with equal row counts (whose cost matrix exists)
  the entries of the cost matrix are the Euclidean distances of the rows, the assignment
  chosen by \<open>fp_distance\<close> is a permutation that minimizes the sum of the matched
  distances (not of their squares), and the returned value is the square root of the sum
  of the squared matched distances under that assignment.
\<close>

theorem fp_distance_min_distance_assignment:
  assumes "costmatrix a b = Inr C"
  shows "(\<forall>i<length a. \<forall>j<length a. \<exists>d. np_sub (a ! i) (b ! j) = Inr d \<and> C ! i ! j = np_norm d)
       \<and> distinct (snd (linear_sum_assignment C))
       \<and> set (snd (linear_sum_assignment C)) = {0..<length a}
       \<and> (\<forall>p. distinct p \<and> set p = {0..<length a}
              \<longrightarrow> assignment_cost C (snd (linear_sum_assignment C)) \<le> assignment_cost C p)
       \<and> fp_distance (Mat a) (Mat b)
           = Inr (sqrt (assignment_sq_cost C (snd (linear_sum_assignment C))))"
proof -
  let ?cols = "snd (linear_sum_assignment C)"
  from costmatrix_Inr [OF assms] have len: "length a = length b" and lc: "length C = length a"
    and ent: "\<forall>i<length a. \<forall>j<length b. \<exists>d. np_sub (a ! i) (b ! j) = Inr d \<and> C ! i ! j = np_norm d"
    by auto
  have mem: "?cols \<in> set (perms [0..<length C])" by (rule lsa_perm)
  from perms_set_length [OF mem] have sc: "set ?cols = {0..<length a}"
    using lc by auto
  from perms_distinct [OF _ mem] have dc: "distinct ?cols" by simp
  have "\<forall>p. distinct p \<and> set p = {0..<length a}
              \<longrightarrow> assignment_cost C ?cols \<le> assignment_cost C p"
    using lsa_min [of _ C] lc by auto
  with fp_distance_Mat [OF assms] ent len sc dc show ?thesis by auto
qed

theorem fp_distance_min_distance_assignment_witness:
  "costmatrix [[0, 0], [4, 0]] [[0, 0], [- 5, 12]] = Inr [[0, 13], [4, 15]]
   \<and> (\<exists>d. np_sub ([[0, 0], [4, 0]] ! 1) ([[0, 0], [- 5, 12]] ! 1) = Inr d
            \<and> [[0, 13], [4, 15]] ! 1 ! 1 = np_norm d)
   \<and> distinct (snd (linear_sum_assignment [[0, 13], [4, 15]]))
   \<and> assignment_cost [[0, 13], [4, 15]] (snd (linear_sum_assignment [[0, 13], [4, 15]]))
        \<le> assignment_cost [[0, 13], [4, 15]] [1, 0]
   \<and> fp_distance (Mat [[0, 0], [4, 0]]) (Mat [[0, 0], [- 5, 12]])
        = Inr (sqrt (assignment_sq_cost [[0, 13], [4, 15]] (snd (linear_sum_assignment [[0, 13], [4, 15]]))))"
proof -
  note t = fp_distance_min_distance_assignment [OF costmatrix_obtuse]
  have p: "distinct [1, 0::nat] \<and> set [1, 0::nat] = {0..<length [[0, 0], [4, 0::real]]}"
    by auto
  from t have "\<exists>d. np_sub ([[0, 0], [4, 0]] ! 1) ([[0, 0], [- 5, 12]] ! 1) = Inr d
            \<and> [[0, 13], [4, 15]] ! 1 ! 1 = np_norm d"
    by (elim conjE allE [of _ 1] impE) simp_all
  moreover from t p have "assignment_cost [[0, 13], [4, 15]] (snd (linear_sum_assignment [[0, 13], [4, 15]]))
        \<le> assignment_cost [[0, 13], [4, 15]] [1, 0]"
    by blast
  ultimately show ?thesis using t costmatrix_obtuse by blast
qed

subsection \<open>The shape contract\<close>

text \<open>
  One-axis descriptors of different lengths, neither of length one, are not caught by an
  assertion: the subtraction fails in numpy.
\<close>

lemma fp_distance_Vec_length_mismatch:
  "length a \<noteq> length b \<Longrightarrow> length a \<noteq> 1 \<Longrightarrow> length b \<noteq> 1
     \<Longrightarrow> fp_distance (Vec a) (Vec b) = Inl ValueError"
  by (simp add: np_sub_def ebind_def)

lemma fp_distance_Mat_column_mismatch:
  "length a = length b \<Longrightarrow> length u \<noteq> length v \<Longrightarrow> length u \<noteq> 1 \<Longrightarrow> length v \<noteq> 1
     \<Longrightarrow> fp_distance (Mat (u # a)) (Mat (v # b)) = Inl ValueError"
  by (simp add: costmatrix_def np_sub_def ebind_def)




section \<open>Frame properties of the steps of a hop\<close>

lemma ebind_Inr: "ebind m f = Inr y \<Longrightarrow> \<exists>x. m = Inr x \<and> f x = Inr y"
  by (cases m) (auto simp: ebind_def)

lemma history_log_frame:
  "history_log s = Inr s' \<Longrightarrow>
     cfg s' = cfg s \<and> Ediff s' = Ediff s \<and> i_step s' = i_step s \<and> counter s' = counter s
     \<and> intermediate_minima s' = intermediate_minima s
     \<and> all_minima_sorted s' = all_minima_sorted s \<and> atoms_cur s' = atoms_cur s
     \<and> atoms s' = atoms s \<and> acc_rej s' = acc_rej s \<and> temperature s' = temperature s
     \<and> n_unique s' = n_unique s \<and> n_notunique s' = n_notunique s \<and> n_min s' = n_min s
     \<and> atoms_ref s' = atoms_ref s \<and> warnings s' = warnings s"
  by (auto simp: history_log_def Let_def split: if_splits)

lemma escape_loop_frame:
  "escape_loop w fp_in energy_in d e k outs s = Inr s' \<Longrightarrow>
     cfg s' = cfg s \<and> Ediff s' = Ediff s \<and> i_step s' = i_step s \<and> counter s' = counter s
     \<and> intermediate_minima s' = intermediate_minima s
     \<and> atoms_ref s' = atoms_ref s \<and> atoms_cur s' = atoms_cur s
     \<and> n_unique s' = n_unique s \<and> n_notunique s' = n_notunique s"
proof (induction outs arbitrary: d e k s)
  case Nil
  then show ?case by (simp add: escape_loop.simps split: if_splits)
next
  case (Cons out rest)
  show ?case
  proof (cases "np_less d (minima_threshold (cfg s)) \<or> e < energy_threshold (cfg s)")
    case False
    with Cons.prems show ?thesis by (simp add: escape_loop.simps)
  next
    case True
    with Cons.prems show ?thesis
      by (subst (asm) escape_loop.simps)
         (auto simp: Let_def check_energy_threshold_def mutate_atoms_def
               split: sum.splits if_splits option.splits dest!: Cons.IH history_log_frame)
  qed
qed

text \<open>
  While the working structure is an object of its own, the escape loop leaves the
  archive alone.
\<close>

lemma escape_loop_archive:
  "escape_loop w fp_in energy_in d e k outs s = Inr s' \<Longrightarrow> atoms_ref s = None \<Longrightarrow>
     all_minima_sorted s' = all_minima_sorted s"
proof (induction outs arbitrary: d e k s)
  case Nil
  then show ?case by (simp add: escape_loop.simps split: if_splits)
next
  case (Cons out rest)
  show ?case
  proof (cases "np_less d (minima_threshold (cfg s)) \<or> e < energy_threshold (cfg s)")
    case False
    with Cons.prems show ?thesis by (simp add: escape_loop.simps)
  next
    case True
    with Cons.prems show ?thesis
      by (subst (asm) escape_loop.simps)
         (auto simp: Let_def check_energy_threshold_def mutate_atoms_def
               split: sum.splits if_splits dest!: Cons.IH history_log_frame)
  qed
qed

lemma escape_frame:
  "escape w s = Inr s' \<Longrightarrow>
     cfg s' = cfg s \<and> Ediff s' = Ediff s \<and> i_step s' = i_step s \<and> counter s' = counter s
     \<and> intermediate_minima s' = intermediate_minima s @ [atoms s']
     \<and> atoms_ref s' = atoms_ref s \<and> atoms_cur s' = atoms_cur s
     \<and> n_unique s' = n_unique s \<and> n_notunique s' = n_notunique s \<and> acc_rej s' = Inter"
  by (auto simp: escape_def ebind_def Let_def split: sum.splits
           dest!: escape_loop_frame history_log_frame)

lemma escape_archive:
  "escape w s = Inr s' \<Longrightarrow> atoms_ref s = None \<Longrightarrow> all_minima_sorted s' = all_minima_sorted s"
  by (auto simp: escape_def ebind_def Let_def split: sum.splits
           dest!: escape_loop_archive history_log_frame)

lemma fold_acc_rej_frame:
  "fold (acc_rej_candidate e) xs st = st' \<Longrightarrow>
     cfg (fst st') = cfg (fst st) \<and> i_step (fst st') = i_step (fst st)
     \<and> counter (fst st') = counter (fst st)
     \<and> all_minima_sorted (fst st') = all_minima_sorted (fst st)
     \<and> atoms (fst st') = atoms (fst st) \<and> fp (fst st') = fp (fst st)
     \<and> temperature (fst st') = temperature (fst st)
     \<and> n_unique (fst st') = n_unique (fst st) \<and> n_notunique (fst st') = n_notunique (fst st)
     \<and> n_min (fst st') = n_min (fst st)"
proof (induction xs arbitrary: st)
  case Nil
  then show ?case by simp
next
  case (Cons x xs)
  from Cons.prems have "fold (acc_rej_candidate e) xs (acc_rej_candidate e x st) = st'"
    by simp
  from Cons.IH [OF this] show ?case
    by (auto simp: acc_rej_candidate_def Let_def split: prod.splits if_splits)
qed

lemma acc_rej_step_Inr:
  "acc_rej_step s = Inr s' \<Longrightarrow>
     s' = fst (fold (acc_rej_candidate (get_potential_energy (atoms_cur s)))
                 (intermediate_minima s) (s, None, None))"
  by (auto simp: acc_rej_step_def Let_def split: prod.splits if_splits option.splits)

lemma acc_rej_step_frame:
  "acc_rej_step s = Inr s' \<Longrightarrow>
     cfg s' = cfg s \<and> i_step s' = i_step s \<and> counter s' = counter s
     \<and> all_minima_sorted s' = all_minima_sorted s
     \<and> atoms s' = atoms s \<and> fp s' = fp s
     \<and> temperature s' = temperature s
     \<and> n_unique s' = n_unique s \<and> n_notunique s' = n_notunique s
     \<and> n_min s' = n_min s"
  using fold_acc_rej_frame [OF refl, of "get_potential_energy (atoms_cur s)" "intermediate_minima s" "(s, None, None)"]
  by (auto dest!: acc_rej_step_Inr)

lemma adj_temperature_branches:
  "n_unique (adj_temperature s) + n_notunique (adj_temperature s) = n_unique s + n_notunique s + 1"
  by (simp add: adj_temperature_def write_fp_def Let_def)

lemma adj_temperature_frame:
  "cfg (adj_temperature s) = cfg s \<and> Ediff (adj_temperature s) = Ediff s
   \<and> i_step (adj_temperature s) = i_step s \<and> counter (adj_temperature s) = counter s
   \<and> intermediate_minima (adj_temperature s) = intermediate_minima s
   \<and> all_minima_sorted (adj_temperature s) = all_minima_sorted s
   \<and> atoms_cur (adj_temperature s) = atoms_cur s \<and> acc_rej (adj_temperature s) = acc_rej s
   \<and> n_min (adj_temperature s) = n_min s"
  by (simp add: adj_temperature_def write_fp_def Let_def)

lemma update_data_frame:
  "cfg (update_data s) = cfg s \<and> Ediff (update_data s) = Ediff s
   \<and> i_step (update_data s) = i_step s \<and> counter (update_data s) = counter s
   \<and> intermediate_minima (update_data s) = intermediate_minima s
   \<and> atoms_cur (update_data s) = atoms_cur s \<and> acc_rej (update_data s) = acc_rej s
   \<and> n_unique (update_data s) = n_unique s \<and> n_notunique (update_data s) = n_notunique s
   \<and> n_min (update_data s) = n_min s"
  by (simp add: update_data_def Let_def)

lemma update_data_archive:
  "all_minima_sorted (update_data s) =
     bisect_insort (all_minima_sorted s)
       \<lparr> m_atoms = atoms s, n_visit = n_visits s, fingerprint = fp s,
         m_T = temperature s, m_ediff = Ediff s, m_acc_rej = acc_rej s \<rparr>"
  by (simp add: update_data_def Let_def)

lemma hop_Inr:
  assumes "hop w s = Inr s'"
  shows "\<exists>s1 s2 n s8. escape w s = Inr s1 \<and> acc_rej_step s1 = Inr s2
           \<and> in_history_fp (hoplog s2) = Inr n
           \<and> history_log (write_poslow (update_data (adj_temperature ((hoplog s2)\<lparr>n_visits := n\<rparr>)))) = Inr s8
           \<and> s' = s8\<lparr>atoms := atoms_cur s8, atoms_ref := None, counter := counter s8 + 1\<rparr>"
  using assms by (auto simp: hop_def ebind_def Let_def split: sum.splits)

lemma hop_facts:
  assumes "hop w s = Inr s'"
  shows "\<exists>s1 s2. escape w s = Inr s1 \<and> acc_rej_step s1 = Inr s2
           \<and> Ediff s' = Ediff s2 \<and> acc_rej s' = acc_rej s2
           \<and> intermediate_minima s' = intermediate_minima s2
           \<and> atoms_cur s' = atoms_cur s2
           \<and> cfg s' = cfg s \<and> i_step s' = i_step s + 1 \<and> counter s' = counter s + 1
           \<and> atoms_ref s' = None
           \<and> n_unique s' + n_notunique s' = n_unique s + n_notunique s + 1"
proof -
  from hop_Inr [OF assms] obtain s1 s2 n s8 where
    e: "escape w s = Inr s1" and a: "acc_rej_step s1 = Inr s2"
    and h: "history_log (write_poslow (update_data (adj_temperature ((hoplog s2)\<lparr>n_visits := n\<rparr>)))) = Inr s8"
    and s': "s' = s8\<lparr>atoms := atoms_cur s8, atoms_ref := None, counter := counter s8 + 1\<rparr>"
    by blast
  let ?t = "(hoplog s2)\<lparr>n_visits := n\<rparr>"
  note fe = escape_frame [OF e] and fa = acc_rej_step_frame [OF a]
    and fh = history_log_frame [OF h]
    and ft = adj_temperature_frame [of ?t] and fu = update_data_frame [of "adj_temperature ?t"]
  have 1: "Ediff s' = Ediff s2 \<and> acc_rej s' = acc_rej s2
        \<and> intermediate_minima s' = intermediate_minima s2 \<and> atoms_cur s' = atoms_cur s2"
    using fh ft fu s' by (simp add: write_poslow_def hoplog_def Let_def)
  have 2: "cfg s' = cfg s \<and> i_step s' = i_step s + 1 \<and> counter s' = counter s + 1"
    using fh ft fu fe fa s' by (simp add: write_poslow_def hoplog_def Let_def)
  have 3: "atoms_ref s' = None"
    using s' by simp
  have 4: "n_unique s' + n_notunique s' = n_unique s + n_notunique s + 1"
    using fh fu fe fa s' adj_temperature_branches [of ?t]
    by (simp add: write_poslow_def hoplog_def Let_def)
  from e a 1 2 3 4 show ?thesis by blast
qed

text \<open>
  A hop that starts with a working structure of its own inserts one record into the
  archive and changes nothing else of it.
\<close>

lemma hop_archive:
  assumes "hop w s = Inr s'" and "atoms_ref s = None"
  shows "\<exists>m. all_minima_sorted s' = bisect_insort (all_minima_sorted s) m"
proof -
  from hop_Inr [OF assms(1)] obtain s1 s2 n s8 where
    e: "escape w s = Inr s1" and a: "acc_rej_step s1 = Inr s2"
    and h: "history_log (write_poslow (update_data (adj_temperature ((hoplog s2)\<lparr>n_visits := n\<rparr>)))) = Inr s8"
    and s': "s' = s8\<lparr>atoms := atoms_cur s8, atoms_ref := None, counter := counter s8 + 1\<rparr>"
    by blast
  let ?t = "(hoplog s2)\<lparr>n_visits := n\<rparr>"
  let ?u = "adj_temperature ?t"
  note fe = escape_archive [OF e assms(2)] and fa = acc_rej_step_frame [OF a]
    and fh = history_log_frame [OF h] and ft = adj_temperature_frame [of ?t]
  have "all_minima_sorted s' =
          bisect_insort (all_minima_sorted s)
            \<lparr> m_atoms = atoms ?u, n_visit = n_visits ?u, fingerprint = fp ?u,
              m_T = temperature ?u, m_ediff = Ediff ?u, m_acc_rej = acc_rej ?u \<rparr>"
    using fh ft fe fa s' update_data_archive [of ?u]
    by (simp add: write_poslow_def hoplog_def Let_def)
  then show ?thesis ..
qed

section \<open>The sorted archive\<close>

lemma sorted_by_energy_nth:
  "sorted_by_energy a \<Longrightarrow> i \<le> j \<Longrightarrow> j < length a \<Longrightarrow> energy (a ! i) \<le> energy (a ! j)"
  using sorted_nth_mono [of "map energy a" i j] by (simp add: sorted_by_energy_def)

lemma bisect_loop_bounds:
  "lo \<le> hi \<Longrightarrow> lo \<le> bisect_loop a x lo hi \<and> bisect_loop a x lo hi \<le> hi"
proof (induction a x lo hi rule: bisect_loop.induct)
  case (1 a x lo hi)
  show ?case
  proof (cases "lo < hi")
    case False
    with "1.prems" show ?thesis by (simp add: bisect_loop.simps)
  next
    case True
    let ?mid = "(lo + hi) div 2"
    from True have mid: "lo \<le> ?mid" "?mid + 1 \<le> hi" by auto
    show ?thesis
    proof (cases "minimum_lt x (a ! ?mid)")
      case lt: True
      from "1.IH"(1) [OF True refl lt mid(1)] mid
      show ?thesis using True lt by (subst (1 2) bisect_loop.simps) (simp add: Let_def)
    next
      case ge: False
      from "1.IH"(2) [OF True refl ge mid(2)] mid
      show ?thesis using True ge by (subst (1 2) bisect_loop.simps) (simp add: Let_def)
    qed
  qed
qed

lemma bisect_loop_spec:
  "sorted_by_energy a \<Longrightarrow> lo \<le> hi \<Longrightarrow> hi \<le> length a
     \<Longrightarrow> \<forall>i<lo. energy (a ! i) \<le> energy x
     \<Longrightarrow> \<forall>i. hi \<le> i \<and> i < length a \<longrightarrow> energy x < energy (a ! i)
     \<Longrightarrow> lo \<le> bisect_loop a x lo hi \<and> bisect_loop a x lo hi \<le> hi
         \<and> (\<forall>i<bisect_loop a x lo hi. energy (a ! i) \<le> energy x)
         \<and> (\<forall>i. bisect_loop a x lo hi \<le> i \<and> i < length a \<longrightarrow> energy x < energy (a ! i))"
proof (induction a x lo hi rule: bisect_loop.induct)
  case (1 a x lo hi)
  note srt = sorted_by_energy_nth [OF "1.prems"(1)]
  show ?case
  proof (cases "lo < hi")
    case False
    with "1.prems" show ?thesis by (simp add: bisect_loop.simps)
  next
    case True
    let ?mid = "(lo + hi) div 2"
    from True have mid: "lo \<le> ?mid" "?mid < hi" by auto
    show ?thesis
    proof (cases "minimum_lt x (a ! ?mid)")
      case lt: True
      have up: "\<forall>i. ?mid \<le> i \<and> i < length a \<longrightarrow> energy x < energy (a ! i)"
      proof (intro allI impI)
        fix i assume "?mid \<le> i \<and> i < length a"
        then have "energy (a ! ?mid) \<le> energy (a ! i)" using srt by blast
        with lt show "energy x < energy (a ! i)" by (simp add: minimum_lt_def)
      qed
      have "lo \<le> bisect_loop a x lo ?mid \<and> bisect_loop a x lo ?mid \<le> ?mid
         \<and> (\<forall>i<bisect_loop a x lo ?mid. energy (a ! i) \<le> energy x)
         \<and> (\<forall>i. bisect_loop a x lo ?mid \<le> i \<and> i < length a \<longrightarrow> energy x < energy (a ! i))"
        using "1.IH"(1) [OF True refl lt] mid "1.prems" up by simp
      moreover have "bisect_loop a x lo hi = bisect_loop a x lo ?mid"
        using True lt by (subst bisect_loop.simps) (simp add: Let_def)
      ultimately show ?thesis using mid by auto
    next
      case ge: False
      have low: "\<forall>i<?mid + 1. energy (a ! i) \<le> energy x"
      proof (intro allI impI)
        fix i assume "i < ?mid + 1"
        with mid "1.prems" have "energy (a ! i) \<le> energy (a ! ?mid)" using srt [of i ?mid] by simp
        with ge show "energy (a ! i) \<le> energy x" by (simp add: minimum_lt_def)
      qed
      have "?mid + 1 \<le> bisect_loop a x (?mid + 1) hi \<and> bisect_loop a x (?mid + 1) hi \<le> hi
         \<and> (\<forall>i<bisect_loop a x (?mid + 1) hi. energy (a ! i) \<le> energy x)
         \<and> (\<forall>i. bisect_loop a x (?mid + 1) hi \<le> i \<and> i < length a \<longrightarrow> energy x < energy (a ! i))"
        using "1.IH"(2) [OF True refl ge] mid "1.prems" low by simp
      moreover have "bisect_loop a x lo hi = bisect_loop a x (?mid + 1) hi"
        using True ge by (subst bisect_loop.simps) (simp add: Let_def)
      ultimately show ?thesis using mid by auto
    qed
  qed
qed

lemma bisect_spec:
  assumes "sorted_by_energy a"
  shows "bisect a x \<le> length a
         \<and> (\<forall>i<bisect a x. energy (a ! i) \<le> energy x)
         \<and> (\<forall>i. bisect a x \<le> i \<and> i < length a \<longrightarrow> energy x < energy (a ! i))"
  using bisect_loop_spec [OF assms, of 0 "length a" x] by (simp add: bisect_def)

lemma bisect_insort_sorted:
  assumes "sorted_by_energy a"
  shows "sorted_by_energy (bisect_insort a x)"
proof -
  let ?r = "bisect a x"
  from bisect_spec [OF assms, of x] have r: "?r \<le> length a"
    and low: "\<forall>i<?r. energy (a ! i) \<le> energy x"
    and up: "\<forall>i. ?r \<le> i \<and> i < length a \<longrightarrow> energy x < energy (a ! i)"
    by auto
  have 1: "sorted (map energy (take ?r a))" and 2: "sorted (map energy (drop ?r a))"
    using assms by (simp_all add: sorted_by_energy_def take_map [symmetric] drop_map [symmetric]
                                 )
  have 3: "\<forall>y \<in> set (take ?r a). energy y \<le> energy x"
    using low by (auto simp: in_set_conv_nth)
  have 4: "\<forall>y \<in> set (drop ?r a). energy x \<le> energy y"
  proof
    fix y assume "y \<in> set (drop ?r a)"
    then obtain i where "i < length a - ?r" "y = a ! (?r + i)"
      by (auto simp: in_set_conv_nth)
    moreover from this have "?r + i < length a" by arith
    ultimately show "energy x \<le> energy y"
      using up [rule_format, of "?r + i"] by simp
  qed
  from 3 4 have "\<forall>y \<in> set (take ?r a). \<forall>z \<in> set (drop ?r a). energy y \<le> energy z"
    by force
  with 1 2 3 4 show ?thesis
    by (simp add: sorted_by_energy_def bisect_insort_def Let_def sorted_append)
qed

lemma bisect_insort_insert:
  "\<exists>k\<le>length a. bisect_insort a x = take k a @ x # drop k a"
  using bisect_loop_bounds [of 0 "length a" a x]
  by (auto simp: bisect_insort_def bisect_def Let_def)

lemma list_sort_sorted: "sorted_by_energy (list_sort a)"
  by (simp add: sorted_by_energy_def list_sort_def)

section \<open>Startup and the driver loop\<close>


lemma restart_structure_frame:
  "restart_structure s u = Inr s' \<Longrightarrow>
     cfg s' = cfg s \<and> counter s' = counter s \<and> i_step s' = i_step s
     \<and> intermediate_minima s' = intermediate_minima s \<and> n_min s' = n_min s
     \<and> n_unique s' = n_unique s \<and> n_notunique s' = n_notunique s
     \<and> fp_dat s' = fp_dat s \<and> history_dat s' = history_dat s
     \<and> atoms_ref s' = atoms_ref s"
  by (auto simp: restart_structure_def split: option.splits if_splits)

lemma restart_archive_frame:
  "restart_archive w b s u = Inr s' \<Longrightarrow>
     cfg s' = cfg s \<and> counter s' = counter s \<and> i_step s' = i_step s
     \<and> intermediate_minima s' = intermediate_minima s \<and> n_min s' = n_min s
     \<and> n_unique s' = n_unique s \<and> n_notunique s' = n_notunique s
     \<and> history_dat s' = history_dat s \<and> atoms_ref s' = atoms_ref s"
  by (auto simp: restart_archive_def Let_def dest!: ebind_Inr split: if_splits)

lemma restart_finish_frame:
  assumes "restart_finish w s = Inr s'"
  shows "cfg s' = cfg s \<and> counter s' = counter s \<and> i_step s' = i_step s
     \<and> intermediate_minima s' = intermediate_minima s \<and> n_min s' = n_min s
     \<and> n_unique s' = n_unique s \<and> n_notunique s' = n_notunique s
     \<and> sorted_by_energy (all_minima_sorted s')
     \<and> (\<not> start_lowest (cfg s) \<longrightarrow> atoms_ref s' = atoms_ref s)"
proof -
  let ?s4 = "if restart_optim (cfg s) then s\<lparr>atoms := restart_opt w (atoms s)\<rparr> else s"
  let ?s5 = "?s4\<lparr>all_minima_sorted := list_sort (all_minima_sorted ?s4)\<rparr>"
  from assms obtain s6 where
    a: "(if start_lowest (cfg ?s5) then
           (case all_minima_sorted ?s5 of [] \<Rightarrow> Inl IndexError
            | m # _ \<Rightarrow> Inr (?s5\<lparr>atoms := m_atoms m, atoms_ref := Some 0\<rparr>))
         else Inr ?s5) = Inr s6"
    and b: "(case history_dat s6 of None \<Rightarrow> Inl FileNotFoundError
             | Some history \<Rightarrow>
                 if history = [] then Inl IndexError
                 else (case last history of
                         (e, nv, temp, ed, rest) \<Rightarrow> Inr (s6\<lparr>temperature := temp, Ediff := ed\<rparr>)))
            = Inr s'"
    unfolding restart_finish_def Let_def by (blast dest: ebind_Inr)
  have 6: "all_minima_sorted s6 = list_sort (all_minima_sorted ?s4)
      \<and> cfg s6 = cfg s \<and> counter s6 = counter s \<and> i_step s6 = i_step s
      \<and> intermediate_minima s6 = intermediate_minima s \<and> n_min s6 = n_min s
      \<and> n_unique s6 = n_unique s \<and> n_notunique s6 = n_notunique s
      \<and> (\<not> start_lowest (cfg s) \<longrightarrow> atoms_ref s6 = atoms_ref s)"
  proof (cases "start_lowest (cfg ?s5)")
    case False
    with a have "s6 = ?s5" by simp
    then show ?thesis by simp
  next
    case True
    with a obtain m :: minimum where "s6 = ?s5\<lparr>atoms := m_atoms m, atoms_ref := Some 0\<rparr>"
      by (cases "all_minima_sorted ?s5") auto
    moreover from True have "start_lowest (cfg s)" by (simp split: if_splits)
    ultimately show ?thesis by simp
  qed
  from b obtain temp ed where "s' = s6\<lparr>temperature := temp, Ediff := ed\<rparr>"
    by (auto split: option.splits if_splits prod.splits)
  with 6 show ?thesis by (simp add: list_sort_sorted)
qed

lemma startup_restart_frame:
  "startup_restart w s = Inr s' \<Longrightarrow>
     cfg s' = cfg s \<and> counter s' = counter s \<and> i_step s' = i_step s
     \<and> intermediate_minima s' = intermediate_minima s \<and> n_min s' = n_min s
     \<and> n_unique s' = n_unique s \<and> n_notunique s' = n_notunique s
     \<and> sorted_by_energy (all_minima_sorted s')
     \<and> (\<not> start_lowest (cfg s) \<longrightarrow> atoms_ref s' = atoms_ref s)"
  by (auto simp: startup_restart_def split: option.splits
           dest!: ebind_Inr restart_structure_frame restart_archive_frame restart_finish_frame)

lemma startup_facts:
  assumes "startup w s0 = Inr s"
  shows "cfg s = cfg s0 \<and> counter s = counter s0 \<and> i_step s = 0
         \<and> intermediate_minima s = [] \<and> n_min s = 1
         \<and> n_unique s = 0 \<and> n_notunique s = 0
         \<and> sorted_by_energy (all_minima_sorted s)"
  using assms
  by (auto simp: startup_def ebind_def Let_def startup_new_def sorted_by_energy_def
           split: sum.splits if_splits
           dest!: startup_restart_frame history_log_frame)

text \<open>
  After \<open>_startup\<close> the working structure is an object of its own, unless the run is a
  restart with \<open>start_lowest\<close>.
\<close>

lemma startup_atoms_ref:
  assumes "startup w s0 = Inr s"
    and "\<not> start_lowest (cfg s0) \<or> min_extxyz s0 = None \<or> history_dat s0 = None
         \<or> new_start (cfg s0)"
  shows "atoms_ref s = None"
  using assms
  by (auto simp: startup_def ebind_def Let_def startup_new_def
           split: sum.splits if_splits
           dest!: startup_restart_frame history_log_frame)






lemma startup_new_run:
  assumes "min_extxyz s0 = None" "history_dat s0 = None" "startup w s0 = Inr s"
  shows "Ediff s = Ediff s0 \<and> temperature s = temperature s0 \<and> all_minima_sorted s = []
         \<and> warnings s = warnings s0"
  using assms
  by (auto simp: startup_def ebind_def Let_def startup_new_def history_log_def
           split: sum.splits if_splits)

lemma call_loop_steps:
  "call_loop w n s = Inr (s', m) \<Longrightarrow> run_time (cfg s) = None \<Longrightarrow> counter s \<le> n + 1
     \<Longrightarrow> i_step s' = i_step s + (n + 1 - counter s) \<and> counter s' = n + 1
         \<and> m = run_terminated n (elapsed w (n + 1)) \<and> cfg s' = cfg s"
proof (induction w n s rule: call_loop.induct)
  case (1 w n s)
  show ?case
  proof (cases "counter s \<le> n")
    case False
    with "1.prems" have "counter s = n + 1" by simp
    with "1.prems" False show ?thesis by (simp add: call_loop.simps)
  next
    case True
    with "1.prems"(1) obtain s1 where h: "hop w s = Inr s1"
      by (subst (asm) call_loop.simps) (auto split: sum.splits)
    from hop_facts [OF h] have f: "cfg s1 = cfg s" "i_step s1 = i_step s + 1" "counter s1 = counter s + 1"
      by auto
    with "1.prems" have rt: "run_time (cfg s1) = None" by simp
    with "1.prems"(1) True h have c: "call_loop w n s1 = Inr (s', m)"
      by (subst (asm) call_loop.simps) simp
    from "1.IH"(1) [OF True h rt c rt] f True
    show ?thesis by simp
  qed
qed

lemma call_loop_sorted:
  "call_loop w n s = Inr (s', m) \<Longrightarrow> sorted_by_energy (all_minima_sorted s)
     \<Longrightarrow> atoms_ref s = None \<Longrightarrow> sorted_by_energy (all_minima_sorted s')"
proof (induction w n s rule: call_loop.induct)
  case (1 w n s)
  show ?case
  proof (cases "counter s \<le> n")
    case False
    with "1.prems" show ?thesis by (simp add: call_loop.simps)
  next
    case True
    with "1.prems"(1) obtain s1 where h: "hop w s = Inr s1"
      by (subst (asm) call_loop.simps) (auto split: sum.splits)
    from hop_archive [OF h "1.prems"(3)] "1.prems"(2)
    have srt: "sorted_by_energy (all_minima_sorted s1)"
      by (auto simp: bisect_insort_sorted)
    from hop_facts [OF h] have nr: "atoms_ref s1 = None" by blast
    show ?thesis
    proof (cases "run_time (cfg s1)")
      case None
      with "1.prems"(1) True h have c: "call_loop w n s1 = Inr (s', m)"
        by (subst (asm) call_loop.simps) simp
      from "1.IH"(1) [OF True h None c srt nr] show ?thesis .
    next
      case (Some t)
      show ?thesis
      proof (cases "elapsed w (counter s1) > real_of_int (get_sec t)")
        case over: True
        with "1.prems"(1) True h Some have "s' = s1"
          by (subst (asm) call_loop.simps) simp
        with srt show ?thesis by simp
      next
        case False
        with "1.prems"(1) True h Some have c: "call_loop w n s1 = Inr (s', m)"
          by (subst (asm) call_loop.simps) simp
        from "1.IH"(2) [OF True h Some False c srt nr] show ?thesis .
      qed
    qed
  qed
qed

section \<open>The acceptance loop\<close>

lemma fold_all_rejected:
  "all_rejected e (Ediff s) (alpha_r (cfg s)) xs \<Longrightarrow>
   fold (acc_rej_candidate e) xs (s, ea, er) =
     (s\<lparr>Ediff := Ediff s * alpha_r (cfg s) ^ length xs,
        acc_rej := (if xs = [] then acc_rej s else Rejected)\<rparr>,
      ea, (if xs = [] then er else Some (get_potential_energy (last xs) - e)))"
proof (induction xs arbitrary: s er)
  case Nil
  then show ?case by simp
next
  case (Cons x xs)
  let ?s1 = "s\<lparr>Ediff := Ediff s * alpha_r (cfg s), acc_rej := Rejected\<rparr>"
  from Cons.prems have rej: "\<not> get_potential_energy x - e < Ediff s"
    and rest: "all_rejected e (Ediff ?s1) (alpha_r (cfg ?s1)) xs"
    by simp_all
  have "fold (acc_rej_candidate e) (x # xs) (s, ea, er) =
        fold (acc_rej_candidate e) xs (?s1, ea, Some (get_potential_energy x - e))"
    using rej by (simp add: acc_rej_candidate_def Let_def)
  also have "\<dots> = (?s1\<lparr>Ediff := Ediff ?s1 * alpha_r (cfg ?s1) ^ length xs,
        acc_rej := (if xs = [] then acc_rej ?s1 else Rejected)\<rparr>,
      ea, (if xs = [] then Some (get_potential_energy x - e) else Some (get_potential_energy (last xs) - e)))"
    by (rule Cons.IH [OF rest])
  finally show ?case by (simp add: mult.assoc)
qed

lemma fold_keeps_cleared:
  "intermediate_minima (fst st) = [] \<Longrightarrow>
     intermediate_minima (fst (fold (acc_rej_candidate e) xs st)) = []"
  by (induction xs arbitrary: st)
     (auto simp: acc_rej_candidate_def Let_def split: prod.splits)

lemma fold_some_accepted:
  "\<not> all_rejected e (Ediff s) (alpha_r (cfg s)) xs \<Longrightarrow>
     intermediate_minima (fst (fold (acc_rej_candidate e) xs (s, ea, er))) = []"
proof (induction xs arbitrary: s er)
  case Nil
  then show ?case by simp
next
  case (Cons x xs)
  show ?case
  proof (cases "get_potential_energy x - e < Ediff s")
    case True
    then have "acc_rej_candidate e x (s, ea, er) =
        (s\<lparr>Ediff := Ediff s * alpha_a (cfg s), atoms_cur := x, acc_rej := Accepted,
            intermediate_minima := []\<rparr>, Some (get_potential_energy x - e), er)"
      by (simp add: acc_rej_candidate_def Let_def)
    then show ?thesis
      using fold_keeps_cleared [of "acc_rej_candidate e x (s, ea, er)" e xs] by simp
  next
    case False
    let ?s1 = "s\<lparr>Ediff := Ediff s * alpha_r (cfg s), acc_rej := Rejected\<rparr>"
    from False Cons.prems have "\<not> all_rejected e (Ediff ?s1) (alpha_r (cfg ?s1)) xs" by simp
    from Cons.IH [OF this, of "Some (get_potential_energy x - e)"] False
    show ?thesis by (simp add: acc_rej_candidate_def Let_def)
  qed
qed

lemma acc_rej_step_list:
  assumes "acc_rej_step s = Inr s1"
  shows "intermediate_minima s1 =
           (if all_rejected (get_potential_energy (atoms_cur s)) (Ediff s) (alpha_r (cfg s))
                 (intermediate_minima s)
            then intermediate_minima s else [])
         \<and> (all_rejected (get_potential_energy (atoms_cur s)) (Ediff s) (alpha_r (cfg s))
                 (intermediate_minima s)
              \<longrightarrow> Ediff s1 = Ediff s * alpha_r (cfg s) ^ length (intermediate_minima s)
                  \<and> atoms_cur s1 = atoms_cur s)"
proof (cases "all_rejected (get_potential_energy (atoms_cur s)) (Ediff s) (alpha_r (cfg s))
                 (intermediate_minima s)")
  case True
  from acc_rej_step_Inr [OF assms] fold_all_rejected [OF True, of None None] True
  show ?thesis by simp
next
  case False
  from acc_rej_step_Inr [OF assms] fold_some_accepted [OF False, of None None] False
  show ?thesis by simp
qed

section \<open>Evaluation of the worked run\<close>

lemmas ex_defs1 = ex_s2_def ex_s1u_def ex_s1t_def ex_s1a_def ex_s1e_def ex_s1_def ex_m1_def

lemmas ex_defs2 = ex_s3_def ex_s2u_def ex_s2t_def ex_s2a_def ex_s2e_def ex_m2_def ex_defs1

lemma vec1_dist: "fp_distance (Vec [x]) (Vec [y]) = Inr \<bar>x - y\<bar>"
  by (simp add: ebind_def np_sub_def np_norm_def)

lemma bisect_nil: "bisect [] x = 0"
  by (simp add: bisect_def bisect_loop.simps)

lemma bisect_single: "bisect [y] x = (if minimum_lt x y then 0 else 1)"
  by (simp add: bisect_def bisect_loop.simps Let_def)

lemma bisect_pair:
  "bisect [y, z] x = (if minimum_lt x z then (if minimum_lt x y then 0 else 1) else 2)"
  by (simp add: bisect_def bisect_loop.simps Let_def)

lemma bisect_triple:
  "bisect [y, z, v] x =
     (if minimum_lt x z then (if minimum_lt x y then 0 else 1)
      else (if minimum_lt x v then 2 else 3))"
  by (simp add: bisect_def bisect_loop.simps Let_def)

lemma ex_startup: "startup ex_world ex_init = Inr ex_s1"
  by (simp add: startup_def ex_init_def init_def ebind_def startup_new_def history_log_def fmt_def round_half_even_def
      default_settings_def append_file_def ex_world_def ex_s1_def ex_atoms_def)

subsection \<open>First hop\<close>

lemma ex_escape1: "escape ex_world ex_s1 = Inr ex_s1e"
  by (simp add: escape_def ex_world_def escape_loop.simps np_less_def np_div_def ebind_def
       check_energy_threshold_def mutate_atoms_def vec1_dist ex_atoms_def history_log_def fmt_def round_half_even_def append_file_def
       ex_s1_def ex_s1e_def default_settings_def Let_def del: fp_distance.simps)

lemma ex_acc_rej_step1: "acc_rej_step ex_s1e = Inr ex_s1a"
  by (simp add: acc_rej_step_def acc_rej_candidate_def ex_s1a_def ex_s1e_def ex_s1_def
       default_settings_def ex_atoms_def Let_def)

lemma ex_in_history_fp1: "in_history_fp (hoplog ex_s1a) = Inr 1"
  by (simp add: in_history_fp_def hoplog_def ex_s1a_def ex_s1e_def ex_s1_def bisect_nil
       backward.simps forward.simps ebind_def default_settings_def)

lemma ex_adj_temperature1: "adj_temperature ((hoplog ex_s1a)\<lparr>n_visits := 1\<rparr>) = ex_s1t"
  by (simp add: hoplog_def adj_temperature_def write_fp_def append_file_def Let_def
        ex_s1t_def ex_s1a_def ex_s1e_def ex_s1_def default_settings_def)

lemma ex_update_data1: "update_data ex_s1t = ex_s1u"
  by (simp add: update_data_def append_file_def bisect_insort_def bisect_nil
        Let_def ex_s1t_def ex_s1a_def ex_s1e_def ex_s1_def ex_s1u_def ex_m1_def)

lemma ex_tail1: "history_log (write_poslow ex_s1u) = Inr (ex_s2\<lparr>counter := 0\<rparr>)"
  by (simp add: write_poslow_def history_log_def fmt_def round_half_even_def append_file_def Let_def
        ex_s2_def ex_s1u_def ex_s1t_def ex_s1a_def ex_s1e_def ex_s1_def ex_m1_def ex_atoms_def
        default_settings_def)

lemma ex_hop1: "hop ex_world ex_s1 = Inr ex_s2"
  unfolding hop_def
  by (simp add: ex_escape1 ex_acc_rej_step1 ex_in_history_fp1 ex_adj_temperature1 ex_update_data1
        ex_tail1 ebind_def Let_def)
     (simp add: ex_s2_def ex_s1u_def ex_s1t_def ex_s1a_def ex_s1e_def ex_s1_def)

subsection \<open>Second hop\<close>

lemma ex_escape2: "escape ex_world ex_s2 = Inr ex_s2e"
  by (simp add: escape_def ex_world_def escape_loop.simps np_less_def np_div_def ebind_def
       check_energy_threshold_def mutate_atoms_def vec1_dist ex_atoms_def history_log_def fmt_def round_half_even_def append_file_def
       ex_s2e_def ex_defs1 default_settings_def Let_def del: fp_distance.simps)

lemma ex_acc_rej_step2: "acc_rej_step ex_s2e = Inr ex_s2a"
  by (simp add: acc_rej_step_def acc_rej_candidate_def ex_s2a_def ex_s2e_def ex_defs1
       default_settings_def ex_atoms_def Let_def)

lemma ex_in_history_fp2: "in_history_fp (hoplog ex_s2a) = Inr 1"
  by (simp add: in_history_fp_def hoplog_def ex_s2a_def ex_s2e_def ex_defs1 bisect_single
       minimum_lt_def energy_def backward.simps forward.simps ebind_def default_settings_def
       vec1_dist np_less_def np_div_def ex_atoms_def Let_def del: fp_distance.simps)

lemma ex_adj_temperature2: "adj_temperature ((hoplog ex_s2a)\<lparr>n_visits := 1\<rparr>) = ex_s2t"
  by (simp add: hoplog_def adj_temperature_def write_fp_def append_file_def Let_def
        ex_s2t_def ex_s2a_def ex_s2e_def ex_defs1 default_settings_def)

lemma ex_update_data2: "update_data ex_s2t = ex_s2u"
  by (simp add: update_data_def append_file_def bisect_insort_def bisect_single
        minimum_lt_def energy_def ex_atoms_def
        Let_def ex_s2u_def ex_s2t_def ex_s2a_def ex_s2e_def ex_defs1 ex_m2_def)

lemma ex_tail2: "history_log (write_poslow ex_s2u) = Inr (ex_s3\<lparr>atoms := ex_atoms 5 2, counter := 1\<rparr>)"
  by (simp add: write_poslow_def history_log_def fmt_def round_half_even_def append_file_def Let_def
        ex_s3_def ex_s2u_def ex_s2t_def ex_s2a_def ex_s2e_def ex_defs1 ex_m2_def ex_atoms_def
        default_settings_def)

lemma ex_hop2: "hop ex_world ex_s2 = Inr ex_s3"
  unfolding hop_def
  by (simp add: ex_escape2 ex_acc_rej_step2 ex_in_history_fp2 ex_adj_temperature2 ex_update_data2
        ex_tail2 ebind_def Let_def)
     (simp add: ex_s3_def ex_s2u_def ex_s2t_def ex_s2a_def ex_s2e_def ex_defs1)

subsection \<open>Third hop\<close>

lemma ex_escape3: "escape ex_world ex_s3 = Inr ex_s3e"
  by (simp add: escape_def ex_world_def escape_loop.simps np_less_def np_div_def ebind_def
       check_energy_threshold_def mutate_atoms_def vec1_dist ex_atoms_def history_log_def fmt_def round_half_even_def append_file_def
       ex_s3e_def ex_defs2 default_settings_def Let_def del: fp_distance.simps)

lemma ex_acc_rej_step3: "acc_rej_step ex_s3e = Inr ex_s3a"
  by (simp add: acc_rej_step_def acc_rej_candidate_def ex_s3a_def ex_s3e_def ex_defs2
       default_settings_def ex_atoms_def Let_def)

lemma ex_in_history_fp3: "in_history_fp (hoplog ex_s3a) = Inr 1"
  by (simp add: in_history_fp_def hoplog_def ex_s3a_def ex_s3e_def ex_defs2 bisect_pair
       minimum_lt_def energy_def backward.simps forward.simps ebind_def default_settings_def
       vec1_dist np_less_def np_div_def ex_atoms_def Let_def del: fp_distance.simps)

lemma ex_adj_temperature3: "adj_temperature ((hoplog ex_s3a)\<lparr>n_visits := 1\<rparr>) = ex_s3t"
  by (simp add: hoplog_def adj_temperature_def write_fp_def append_file_def Let_def
        ex_s3t_def ex_s3a_def ex_s3e_def ex_defs2 default_settings_def)

lemma ex_update_data3: "update_data ex_s3t = ex_s3u"
  by (simp add: update_data_def append_file_def bisect_insort_def bisect_pair
        minimum_lt_def energy_def ex_atoms_def
        Let_def ex_s3u_def ex_s3t_def ex_s3a_def ex_s3e_def ex_defs2 ex_m3_def)

lemma ex_tail3: "history_log (write_poslow ex_s3u) = Inr (ex_s4\<lparr>atoms := ex_atoms 6 3, counter := 2\<rparr>)"
  by (simp add: write_poslow_def history_log_def fmt_def round_half_even_def append_file_def Let_def
        ex_s4_def ex_s3u_def ex_s3t_def ex_s3a_def ex_s3e_def ex_defs2 ex_m3_def ex_atoms_def
        default_settings_def)

lemma ex_hop3: "hop ex_world ex_s3 = Inr ex_s4"
  unfolding hop_def
  by (simp add: ex_escape3 ex_acc_rej_step3 ex_in_history_fp3 ex_adj_temperature3 ex_update_data3
        ex_tail3 ebind_def Let_def)
     (simp add: ex_s4_def ex_s3u_def ex_s3t_def ex_s3a_def ex_s3e_def ex_defs2)

subsection \<open>The whole run, restarts and lookups\<close>

lemma ex_counter: "counter ex_s1 = 0" "counter ex_s2 = 1" "counter ex_s3 = 2" "counter ex_s4 = 3"
  by (simp_all add: ex_s4_def ex_s3u_def ex_s3t_def ex_s3a_def ex_s3e_def ex_defs2)

lemma ex_cfg: "cfg ex_s1 = default_settings" "cfg ex_s2 = default_settings"
  "cfg ex_s3 = default_settings" "cfg ex_s4 = default_settings"
  by (simp_all add: ex_s4_def ex_s3u_def ex_s3t_def ex_s3a_def ex_s3e_def ex_defs2)

lemma ex_archive: "all_minima_sorted ex_s1 = []" "all_minima_sorted ex_s3 = [ex_m1, ex_m2]"
  "all_minima_sorted ex_s4 = [ex_m1, ex_m2, ex_m3]"
  by (simp_all add: ex_s4_def ex_s3u_def ex_s3t_def ex_s3a_def ex_s3e_def ex_defs2)

lemma ex_sorted: "sorted_by_energy [ex_m1]" "sorted_by_energy [ex_m1, ex_m2]"
  by (simp_all add: sorted_by_energy_def energy_def ex_m1_def ex_m2_def ex_atoms_def)

lemma ex_run_terminated: "run_terminated 2 (elapsed ex_world 3) = RunTerminated 2 1 1 1 4"
  by (simp add: run_terminated_def ex_world_def Let_def)

lemma ex_call_loop: "call_loop ex_world 2 ex_s1 = Inr (ex_s4, RunTerminated 2 1 1 1 4)"
proof -
  have 4: "call_loop ex_world 2 ex_s4 = Inr (ex_s4, RunTerminated 2 1 1 1 4)"
    by (subst call_loop.simps) (simp add: ex_counter ex_run_terminated)
  have 3: "call_loop ex_world 2 ex_s3 = call_loop ex_world 2 ex_s4"
    by (subst call_loop.simps) (simp add: ex_counter ex_cfg ex_hop3 default_settings_def)
  have 2: "call_loop ex_world 2 ex_s2 = call_loop ex_world 2 ex_s3"
    by (subst call_loop.simps) (simp add: ex_counter ex_cfg ex_hop2 default_settings_def)
  have 1: "call_loop ex_world 2 ex_s1 = call_loop ex_world 2 ex_s2"
    by (subst call_loop.simps) (simp add: ex_counter ex_cfg ex_hop1 default_settings_def)
  from 1 2 3 4 show ?thesis by simp
qed

lemma ex_call: "call ex_world (Some 2) ex_init = Inr (ex_s4, RunTerminated 2 1 1 1 4)"
  by (simp add: call_def ebind_def ex_startup ex_call_loop)



lemma ex_nofp_restarts: "\<exists>s. startup ex_world ex_nofp = Inr s"
  by (simp add: startup_def startup_restart_def restart_structure_def restart_archive_def
        restart_finish_def list_sort_def energy_def archived_def history_log_def fmt_def round_half_even_def
        ex_nofp_def init_def ebind_def default_settings_def ex_atoms_def ex_world_def
        ex_history_def Let_def)

subsection \<open>The restart with \<open>start_lowest\<close>\<close>

lemmas ex_defsl = ex_l1u_def ex_l1t_def ex_l1a_def ex_l1e_def ex_l1_def ex_ml_def

lemma ex_lowest_startup: "startup ex_world_lowest ex_lowest = Inr ex_l1"
  by (simp add: startup_def startup_restart_def restart_structure_def restart_archive_def
        restart_finish_def read_fp_def list_sort_def energy_def archived_def history_log_def
        fmt_def round_half_even_def append_file_def ex_lowest_def init_def ebind_def
        default_settings_def ex_atoms_def ex_world_lowest_def ex_history_def ex_l1_def Let_def)

lemma ex_lowest_escape: "escape ex_world_lowest ex_l1 = Inr ex_l1e"
  by (simp add: escape_def ex_world_lowest_def escape_loop.simps np_less_def np_div_def ebind_def
       check_energy_threshold_def mutate_atoms_def vec1_dist ex_atoms_def history_log_def
       fmt_def round_half_even_def append_file_def archived_def ex_history_def
       ex_l1_def ex_l1e_def default_settings_def Let_def del: fp_distance.simps)

lemma ex_lowest_acc_rej_step: "acc_rej_step ex_l1e = Inr ex_l1a"
  by (simp add: acc_rej_step_def acc_rej_candidate_def ex_l1a_def ex_l1e_def ex_l1_def
       default_settings_def ex_atoms_def Let_def)

lemma ex_lowest_in_history_fp: "in_history_fp (hoplog ex_l1a) = Inr 1"
  by (simp add: in_history_fp_def hoplog_def ex_l1a_def ex_l1e_def ex_l1_def bisect_pair
       archived_def minimum_lt_def energy_def backward.simps forward.simps ebind_def
       default_settings_def vec1_dist np_less_def np_div_def ex_atoms_def Let_def
       del: fp_distance.simps)

lemma ex_lowest_adj_temperature: "adj_temperature ((hoplog ex_l1a)\<lparr>n_visits := 1\<rparr>) = ex_l1t"
  by (simp add: hoplog_def adj_temperature_def write_fp_def append_file_def Let_def
        ex_l1t_def ex_l1a_def ex_l1e_def ex_l1_def default_settings_def)

lemma ex_lowest_update_data: "update_data ex_l1t = ex_l1u"
  by (simp add: update_data_def append_file_def bisect_insort_def bisect_pair
        archived_def minimum_lt_def energy_def ex_atoms_def Let_def ex_defsl)

lemma ex_lowest_tail:
  "history_log (write_poslow ex_l1u)
     = Inr (ex_l2\<lparr>atoms := ex_atoms 6 3, atoms_ref := Some 0, counter := 0\<rparr>)"
  by (simp add: write_poslow_def history_log_def fmt_def round_half_even_def append_file_def
        Let_def ex_l2_def ex_defsl archived_def ex_atoms_def ex_history_def default_settings_def)

lemma ex_lowest_hop: "hop ex_world_lowest ex_l1 = Inr ex_l2"
  unfolding hop_def
  by (simp add: ex_lowest_escape ex_lowest_acc_rej_step ex_lowest_in_history_fp
        ex_lowest_adj_temperature ex_lowest_update_data ex_lowest_tail ebind_def Let_def)
     (simp add: ex_l2_def ex_defsl)

lemma ex_lowest_call:
  "call ex_world_lowest (Some 0) ex_lowest = Inr (ex_l2, RunTerminated 0 1 1 1 2)"
proof -
  have c: "counter ex_l1 = 0" "counter ex_l2 = 1" "run_time (cfg ex_l2) = None"
    by (simp_all add: ex_l2_def ex_defsl default_settings_def)
  have 2: "call_loop ex_world_lowest 0 ex_l2 = Inr (ex_l2, RunTerminated 0 1 1 1 2)"
    by (subst call_loop.simps) (simp add: c run_terminated_def ex_world_lowest_def Let_def)
  have 1: "call_loop ex_world_lowest 0 ex_l1 = call_loop ex_world_lowest 0 ex_l2"
    by (subst call_loop.simps) (simp add: c ex_lowest_hop)
  from 1 2 show ?thesis by (simp add: call_def ebind_def ex_lowest_startup)
qed

lemma ex_dup_lookup: "in_history_fp ex_dup = Inr 1"
  by (simp add: in_history_fp_def ex_dup_def ex_s1_def bisect_single archived_def
       minimum_lt_def energy_def backward.simps forward.simps ebind_def default_settings_def
       vec1_dist np_less_def np_div_def ex_atoms_def Let_def del: fp_distance.simps)

lemma ex_dup3_lookup: "in_history_fp ex_dup3 = Inr 1"
  by (simp add: in_history_fp_def ex_dup3_def ex_s1_def bisect_triple archived_def
       minimum_lt_def energy_def backward.simps forward.simps ebind_def default_settings_def
       vec1_dist np_less_def np_div_def ex_atoms_def Let_def del: fp_distance.simps)

section \<open>The novelty lookup\<close>

text \<open>
  C1 fails on the code. The forward loop of \<open>_in_history_fp\<close> starts one index past the
  insertion point and with the energy difference the backward loop ended on. In a sorted
  archive holding one record of energy \<open>1.00001\<close>, a query of energy \<open>1.0\<close> with the same
  fingerprint (distance \<open>0\<close>, energy within \<open>energy_threshold\<close>) gets the count \<open>1\<close>; so
  does the query when a record of energy \<open>0\<close> lies below and two such duplicates above.
\<close>

theorem novelty_lookup_misses_next_record:
  "sorted_by_energy (all_minima_sorted ex_dup)
   \<and> fp_distance (fp ex_dup) (fingerprint (all_minima_sorted ex_dup ! 0)) = Inr 0
   \<and> \<bar>energy (all_minima_sorted ex_dup ! 0) - get_potential_energy (atoms ex_dup)\<bar>
        < energy_threshold (cfg ex_dup)
   \<and> in_history_fp ex_dup = Inr 1
   \<and> sorted_by_energy (all_minima_sorted ex_dup3)
   \<and> fp_distance (fp ex_dup3) (fingerprint (all_minima_sorted ex_dup3 ! 2)) = Inr 0
   \<and> \<bar>energy (all_minima_sorted ex_dup3 ! 2) - get_potential_energy (atoms ex_dup3)\<bar>
        < energy_threshold (cfg ex_dup3)
   \<and> in_history_fp ex_dup3 = Inr 1"
  by (simp add: ex_dup_lookup ex_dup3_lookup)
     (simp add: ex_dup_def ex_dup3_def ex_s1_def sorted_by_energy_def energy_def archived_def
        ex_atoms_def default_settings_def vec1_dist del: fp_distance.simps)

section \<open>Restart inconsistencies\<close>




section \<open>The run driver\<close>

text \<open>
  C5 fails on the code. Called on a fresh object (counter \<open>0\<close>) with a step budget
  \<open>totalsteps \<ge> 0\<close> and unbounded time, a run that returns has made \<open>totalsteps + 1\<close> hops
  (\<open>_hoplog\<close> counts them in \<open>i_step\<close>), and its summary reports \<open>totalsteps\<close> steps.
\<close>

theorem call_runs_totalsteps_plus_one_hops:
  assumes "call w (Some totalsteps) s0 = Inr (s', m)"
    and "counter s0 = 0" and "run_time (cfg s0) = None" and "0 \<le> totalsteps"
  shows "i_step s' = totalsteps + 1 \<and> counter s' = totalsteps + 1
         \<and> m = run_terminated totalsteps (elapsed w (totalsteps + 1))"
proof -
  from assms(1) obtain s1 where s1: "startup w s0 = Inr s1"
    and l: "call_loop w totalsteps s1 = Inr (s', m)"
    by (auto simp: call_def dest!: ebind_Inr)
  from startup_facts [OF s1] assms have "run_time (cfg s1) = None" "counter s1 \<le> totalsteps + 1"
    "i_step s1 = 0" "counter s1 = 0"
    by simp_all
  with call_loop_steps [OF l] show ?thesis by simp
qed

theorem call_runs_totalsteps_plus_one_hops_witness:
  "call ex_world (Some 2) ex_init = Inr (ex_s4, RunTerminated 2 1 1 1 4)
   \<and> counter ex_init = 0 \<and> run_time (cfg ex_init) = None
   \<and> i_step ex_s4 = 3 \<and> counter ex_s4 = 3
   \<and> RunTerminated 2 1 1 1 4 = run_terminated 2 (elapsed ex_world 3)"
proof -
  have c: "counter ex_init = 0" and r: "run_time (cfg ex_init) = None"
    by (simp_all add: ex_init_def init_def default_settings_def)
  from call_runs_totalsteps_plus_one_hops [OF ex_call c r] c r ex_call
  show ?thesis by simp
qed

section \<open>The sorted archive under the run driver\<close>

text \<open>
  What holds of the archive: a bisection insert into an archive sorted by energy leaves
  it sorted, and it only places the new record between a prefix and the rest of the old
  archive; the archive is sorted after \<open>_startup\<close> (empty, or sorted once at restart); a
  hop that starts with a working structure of its own makes exactly one such insert; and
  the archive is sorted when the driver returns, unless the run is a restart with
  \<open>start_lowest\<close>.
\<close>

lemma archive_sorted_unless_aliased:
  "(sorted_by_energy a \<longrightarrow> sorted_by_energy (bisect_insort a x))
   \<and> (\<exists>k\<le>length a. bisect_insort a x = take k a @ x # drop k a)
   \<and> (startup w s0 = Inr s \<longrightarrow> sorted_by_energy (all_minima_sorted s))
   \<and> (hop w s = Inr s' \<and> atoms_ref s = None \<longrightarrow>
        (\<exists>y. \<exists>k\<le>length (all_minima_sorted s).
           all_minima_sorted s' = take k (all_minima_sorted s) @ y # drop k (all_minima_sorted s))
        \<and> (sorted_by_energy (all_minima_sorted s) \<longrightarrow> sorted_by_energy (all_minima_sorted s')))
   \<and> (call w n s0 = Inr (s'', m)
        \<and> (\<not> start_lowest (cfg s0) \<or> min_extxyz s0 = None \<or> history_dat s0 = None
            \<or> new_start (cfg s0))
      \<longrightarrow> sorted_by_energy (all_minima_sorted s''))"
proof (intro conjI impI)
  assume "sorted_by_energy a"
  then show "sorted_by_energy (bisect_insort a x)" by (rule bisect_insort_sorted)
next
  show "\<exists>k\<le>length a. bisect_insort a x = take k a @ x # drop k a"
    by (rule bisect_insort_insert)
next
  assume "startup w s0 = Inr s"
  then show "sorted_by_energy (all_minima_sorted s)" by (simp add: startup_facts)
next
  assume h: "hop w s = Inr s' \<and> atoms_ref s = None"
  then have h1: "hop w s = Inr s'" and h2: "atoms_ref s = None" by simp_all
  from hop_archive [OF h1 h2] obtain y where
    y: "all_minima_sorted s' = bisect_insort (all_minima_sorted s) y" by blast
  with bisect_insort_insert [of "all_minima_sorted s" y]
  show "\<exists>y. \<exists>k\<le>length (all_minima_sorted s).
           all_minima_sorted s' = take k (all_minima_sorted s) @ y # drop k (all_minima_sorted s)"
    by auto
  assume "sorted_by_energy (all_minima_sorted s)"
  with y show "sorted_by_energy (all_minima_sorted s')" by (simp add: bisect_insort_sorted)
next
  assume c: "call w n s0 = Inr (s'', m)
        \<and> (\<not> start_lowest (cfg s0) \<or> min_extxyz s0 = None \<or> history_dat s0 = None
            \<or> new_start (cfg s0))"
  then obtain s1 k where s1: "startup w s0 = Inr s1" and l: "call_loop w k s1 = Inr (s'', m)"
    by (auto simp: call_def dest!: ebind_Inr split: option.splits)
  from startup_facts [OF s1] have srt: "sorted_by_energy (all_minima_sorted s1)" by simp
  from c have "\<not> start_lowest (cfg s0) \<or> min_extxyz s0 = None \<or> history_dat s0 = None
            \<or> new_start (cfg s0)" by simp
  from startup_atoms_ref [OF s1 this] have "atoms_ref s1 = None" .
  with l srt show "sorted_by_energy (all_minima_sorted s'')" by (rule call_loop_sorted)
qed

lemma archive_sorted_fresh_run:
  "sorted_by_energy (all_minima_sorted ex_s4) \<and> all_minima_sorted ex_s4 = [ex_m1, ex_m2, ex_m3]
   \<and> call ex_world (Some 2) ex_init = Inr (ex_s4, RunTerminated 2 1 1 1 4)"
proof -
  have "\<not> start_lowest (cfg ex_init)" by (simp add: ex_init_def init_def default_settings_def)
  with archive_sorted_unless_aliased [where w = ex_world and n = "Some 2" and ?s0.0 = ex_init
         and s'' = ex_s4 and m = "RunTerminated 2 1 1 1 4"] ex_call
  have "sorted_by_energy (all_minima_sorted ex_s4)" by blast
  with ex_call ex_archive show ?thesis by simp
qed

text \<open>
  C6 fails on the code. On a restart with \<open>start_lowest\<close>, \<open>_startup\<close> sorts the archive
  (here from the file order \<open>5, -1\<close> to \<open>-1, 5\<close>) and then binds the working structure to
  the structure object of its first record, without the copy it makes everywhere else.
  The first escape moves that object to the structure it finds (energy \<open>6\<close>), so the
  first record of the archive now has energy \<open>6\<close> and lies before the record of energy
  \<open>5\<close>; the insert of the hop appends the new record, and the driver returns with an
  archive of energies \<open>6, 5, 6\<close>.
\<close>

theorem archive_unsorted_after_start_lowest_restart:
  "startup ex_world_lowest ex_lowest = Inr ex_l1
   \<and> map energy (all_minima_sorted ex_l1) = [- 1, 5]
   \<and> sorted_by_energy (all_minima_sorted ex_l1)
   \<and> hop ex_world_lowest ex_l1 = Inr ex_l2
   \<and> map energy (all_minima_sorted ex_l2) = [6, 5, 6]
   \<and> \<not> sorted_by_energy (all_minima_sorted ex_l2)
   \<and> call ex_world_lowest (Some 0) ex_lowest = Inr (ex_l2, RunTerminated 0 1 1 1 2)"
  by (simp add: ex_lowest_startup ex_lowest_hop ex_lowest_call)
     (simp add: ex_l2_def ex_defsl sorted_by_energy_def energy_def archived_def ex_atoms_def)

section \<open>The acceptance policy\<close>

text \<open>
  C7: for each candidate, an accept multiplies \<open>Ediff\<close> by \<open>alpha_a\<close> and a reject by
  \<open>alpha_r\<close>; the default factors are below and above one; and a fresh run with
  \<open>Ediff0 = 0.01\<close> and \<open>alpha_a = 0.95\<close> whose first hop ends accepted has
  \<open>Ediff = 0.0095\<close> after it.
\<close>

theorem acceptance_threshold_update:
  "(get_potential_energy atom - e_pot_cur < Ediff s \<longrightarrow>
      acc_rej (fst (acc_rej_candidate e_pot_cur atom (s, ea, er))) = Accepted
      \<and> Ediff (fst (acc_rej_candidate e_pot_cur atom (s, ea, er))) = Ediff s * alpha_a (cfg s))
   \<and> (\<not> get_potential_energy atom - e_pot_cur < Ediff s \<longrightarrow>
      acc_rej (fst (acc_rej_candidate e_pot_cur atom (s, ea, er))) = Rejected
      \<and> Ediff (fst (acc_rej_candidate e_pot_cur atom (s, ea, er))) = Ediff s * alpha_r (cfg s))
   \<and> alpha_a default_settings < 1 \<and> alpha_r default_settings > 1
   \<and> (Ediff0 c = 0.01 \<and> alpha_a c = 0.95
        \<and> startup w (init c a f_acc None f_fp None) = Inr s1 \<and> hop w s1 = Inr s2
        \<and> acc_rej s2 = Accepted
      \<longrightarrow> Ediff s2 = 0.0095)"
proof (intro conjI impI)
  assume "get_potential_energy atom - e_pot_cur < Ediff s"
  then show "acc_rej (fst (acc_rej_candidate e_pot_cur atom (s, ea, er))) = Accepted"
    and "Ediff (fst (acc_rej_candidate e_pot_cur atom (s, ea, er))) = Ediff s * alpha_a (cfg s)"
    by (simp_all add: acc_rej_candidate_def Let_def)
next
  assume "\<not> get_potential_energy atom - e_pot_cur < Ediff s"
  then show "acc_rej (fst (acc_rej_candidate e_pot_cur atom (s, ea, er))) = Rejected"
    and "Ediff (fst (acc_rej_candidate e_pot_cur atom (s, ea, er))) = Ediff s * alpha_r (cfg s)"
    by (simp_all add: acc_rej_candidate_def Let_def)
next
  show "alpha_a default_settings < 1" and "alpha_r default_settings > 1"
    by (simp_all add: default_settings_def)
next
  let ?s0 = "init c a f_acc None f_fp None"
  assume a: "Ediff0 c = 0.01 \<and> alpha_a c = 0.95
        \<and> startup w ?s0 = Inr s1 \<and> hop w s1 = Inr s2 \<and> acc_rej s2 = Accepted"
  then have st: "startup w ?s0 = Inr s1" and h: "hop w s1 = Inr s2" by simp_all
  have i: "min_extxyz ?s0 = None" "history_dat ?s0 = None" "Ediff ?s0 = Ediff0 c" "cfg ?s0 = c"
    by (simp_all add: init_def)
  from startup_new_run [OF i(1,2) st] startup_facts [OF st] i
  have s1: "Ediff s1 = Ediff0 c" "cfg s1 = c" "intermediate_minima s1 = []" by simp_all
  from hop_facts [OF h] obtain se sa where e: "escape w s1 = Inr se"
    and ar: "acc_rej_step se = Inr sa" and f: "Ediff s2 = Ediff sa" "acc_rej s2 = acc_rej sa"
    by blast
  from escape_frame [OF e] s1 have se: "cfg se = c" "Ediff se = Ediff0 c"
    "intermediate_minima se = [atoms se]"
    by simp_all
  from acc_rej_step_Inr [OF ar] se
  have sa: "sa = fst (acc_rej_candidate (get_potential_energy (atoms_cur se)) (atoms se) (se, None, None))"
    by simp
  from a f have "acc_rej sa = Accepted" by simp
  with sa have "get_potential_energy (atoms se) - get_potential_energy (atoms_cur se) < Ediff se"
    by (auto simp: acc_rej_candidate_def Let_def split: if_splits)
  with sa have "Ediff sa = Ediff se * alpha_a (cfg se)"
    by (simp add: acc_rej_candidate_def Let_def)
  with se f have "Ediff s2 = Ediff0 c * alpha_a c" by simp
  also have "\<dots> = 0.01 * 0.95"
  proof -
    from a have "Ediff0 c = 0.01" and "alpha_a c = 0.95" by blast+
    then show ?thesis by (simp only:)
  qed
  also have "\<dots> = 0.0095" by simp
  finally show "Ediff s2 = 0.0095" .
qed

theorem acceptance_threshold_update_witness:
  "get_potential_energy (ex_atoms (- 1) 1) - 0 < Ediff ex_s1e
   \<and> acc_rej (fst (acc_rej_candidate 0 (ex_atoms (- 1) 1) (ex_s1e, None, None))) = Accepted
   \<and> Ediff (fst (acc_rej_candidate 0 (ex_atoms (- 1) 1) (ex_s1e, None, None)))
        = Ediff ex_s1e * alpha_a (cfg ex_s1e)
   \<and> \<not> get_potential_energy (ex_atoms 5 2) - (- 1) < Ediff ex_s2e
   \<and> acc_rej (fst (acc_rej_candidate (- 1) (ex_atoms 5 2) (ex_s2e, None, None))) = Rejected
   \<and> Ediff (fst (acc_rej_candidate (- 1) (ex_atoms 5 2) (ex_s2e, None, None)))
        = Ediff ex_s2e * alpha_r (cfg ex_s2e)
   \<and> Ediff0 default_settings = 0.01 \<and> alpha_a default_settings = 0.95
   \<and> startup ex_world (init default_settings (ex_atoms 0 0) None None None None) = Inr ex_s1
   \<and> hop ex_world ex_s1 = Inr ex_s2 \<and> acc_rej ex_s2 = Accepted
   \<and> Ediff ex_s2 = 0.0095"
proof -
  have a: "get_potential_energy (ex_atoms (- 1) 1) - 0 < Ediff ex_s1e"
    by (simp add: ex_atoms_def ex_s1e_def ex_s1_def)
  have r: "\<not> get_potential_energy (ex_atoms 5 2) - (- 1) < Ediff ex_s2e"
    by (simp add: ex_atoms_def ex_s2e_def ex_defs1)
  have d: "Ediff0 default_settings = 0.01" "alpha_a default_settings = 0.95"
    by (simp_all add: default_settings_def)
  have st: "startup ex_world (init default_settings (ex_atoms 0 0) None None None None) = Inr ex_s1"
    using ex_startup by (simp add: ex_init_def)
  have ac: "acc_rej ex_s2 = Accepted" by (simp add: ex_defs1)
  note t1 = acceptance_threshold_update [of "ex_atoms (- 1) 1" 0 ex_s1e None None
              default_settings ex_world "ex_atoms 0 0" None None ex_s1 ex_s2]
  note t2 = acceptance_threshold_update [of "ex_atoms 5 2" "- 1" ex_s2e None None
              default_settings ex_world "ex_atoms 0 0" None None ex_s1 ex_s2]
  from t1 a have 1: "acc_rej (fst (acc_rej_candidate 0 (ex_atoms (- 1) 1) (ex_s1e, None, None))) = Accepted
   \<and> Ediff (fst (acc_rej_candidate 0 (ex_atoms (- 1) 1) (ex_s1e, None, None)))
        = Ediff ex_s1e * alpha_a (cfg ex_s1e)" by blast
  from t2 r have 2: "acc_rej (fst (acc_rej_candidate (- 1) (ex_atoms 5 2) (ex_s2e, None, None))) = Rejected
   \<and> Ediff (fst (acc_rej_candidate (- 1) (ex_atoms 5 2) (ex_s2e, None, None)))
        = Ediff ex_s2e * alpha_r (cfg ex_s2e)" by blast
  from t1 d st ex_hop1 ac have 3: "Ediff ex_s2 = 0.0095" by blast
  from a r d st ex_hop1 ac 1 2 3 show ?thesis by blast
qed

text \<open>
  C10: an acceptance step leaves the list of intermediate candidates as it was when every
  candidate is rejected (multiplying \<open>Ediff\<close> by \<open>alpha_r\<close> once per candidate) and
  empties it otherwise; a hop processes the stored candidates together with the newly
  escaped one, and when all of them are rejected they all stay stored for the next hop.
\<close>

theorem rejected_candidates_stay_stored:
  "(acc_rej_step s = Inr s1 \<longrightarrow>
      intermediate_minima s1 =
        (if all_rejected (get_potential_energy (atoms_cur s)) (Ediff s) (alpha_r (cfg s))
              (intermediate_minima s)
         then intermediate_minima s else [])
      \<and> (all_rejected (get_potential_energy (atoms_cur s)) (Ediff s) (alpha_r (cfg s))
              (intermediate_minima s)
           \<longrightarrow> Ediff s1 = Ediff s * alpha_r (cfg s) ^ length (intermediate_minima s)
               \<and> atoms_cur s1 = atoms_cur s))
   \<and> (hop w s = Inr s' \<longrightarrow>
        (\<exists>se. escape w s = Inr se
           \<and> intermediate_minima s' =
               (if all_rejected (get_potential_energy (atoms_cur s)) (Ediff s) (alpha_r (cfg s))
                     (intermediate_minima s @ [atoms se])
                then intermediate_minima s @ [atoms se] else [])
           \<and> (all_rejected (get_potential_energy (atoms_cur s)) (Ediff s) (alpha_r (cfg s))
                     (intermediate_minima s @ [atoms se])
                \<longrightarrow> Ediff s' = Ediff s * alpha_r (cfg s) ^ (length (intermediate_minima s) + 1)
                    \<and> atoms_cur s' = atoms_cur s)))"
proof (rule conjI)
  show "acc_rej_step s = Inr s1 \<longrightarrow>
      intermediate_minima s1 =
        (if all_rejected (get_potential_energy (atoms_cur s)) (Ediff s) (alpha_r (cfg s))
              (intermediate_minima s)
         then intermediate_minima s else [])
      \<and> (all_rejected (get_potential_energy (atoms_cur s)) (Ediff s) (alpha_r (cfg s))
              (intermediate_minima s)
           \<longrightarrow> Ediff s1 = Ediff s * alpha_r (cfg s) ^ length (intermediate_minima s)
               \<and> atoms_cur s1 = atoms_cur s)"
    using acc_rej_step_list [of s s1] by blast
next
  show "hop w s = Inr s' \<longrightarrow>
        (\<exists>se. escape w s = Inr se
           \<and> intermediate_minima s' =
               (if all_rejected (get_potential_energy (atoms_cur s)) (Ediff s) (alpha_r (cfg s))
                     (intermediate_minima s @ [atoms se])
                then intermediate_minima s @ [atoms se] else [])
           \<and> (all_rejected (get_potential_energy (atoms_cur s)) (Ediff s) (alpha_r (cfg s))
                     (intermediate_minima s @ [atoms se])
                \<longrightarrow> Ediff s' = Ediff s * alpha_r (cfg s) ^ (length (intermediate_minima s) + 1)
                    \<and> atoms_cur s' = atoms_cur s))"
  proof
    assume h: "hop w s = Inr s'"
    from hop_facts [OF h] obtain se s2 where e: "escape w s = Inr se"
      and a: "acc_rej_step se = Inr s2"
      and f: "Ediff s' = Ediff s2" "intermediate_minima s' = intermediate_minima s2"
             "atoms_cur s' = atoms_cur s2"
      by blast
    from escape_frame [OF e] have fe: "cfg se = cfg s" "Ediff se = Ediff s"
      "intermediate_minima se = intermediate_minima s @ [atoms se]" "atoms_cur se = atoms_cur s"
      by simp_all
    from acc_rej_step_list [OF a] f fe e
    show "\<exists>se. escape w s = Inr se
           \<and> intermediate_minima s' =
               (if all_rejected (get_potential_energy (atoms_cur s)) (Ediff s) (alpha_r (cfg s))
                     (intermediate_minima s @ [atoms se])
                then intermediate_minima s @ [atoms se] else [])
           \<and> (all_rejected (get_potential_energy (atoms_cur s)) (Ediff s) (alpha_r (cfg s))
                     (intermediate_minima s @ [atoms se])
                \<longrightarrow> Ediff s' = Ediff s * alpha_r (cfg s) ^ (length (intermediate_minima s) + 1)
                    \<and> atoms_cur s' = atoms_cur s)"
      by auto
  qed
qed

theorem rejected_candidates_stay_stored_witness:
  "acc_rej_step ex_s3e = Inr ex_s3a
   \<and> all_rejected (get_potential_energy (atoms_cur ex_s3e)) (Ediff ex_s3e) (alpha_r (cfg ex_s3e))
        (intermediate_minima ex_s3e)
   \<and> intermediate_minima ex_s3a = [ex_atoms 5 2, ex_atoms 6 3]
   \<and> Ediff ex_s3a = Ediff ex_s3e * alpha_r (cfg ex_s3e) ^ 2
   \<and> acc_rej_step ex_s1e = Inr ex_s1a
   \<and> \<not> all_rejected (get_potential_energy (atoms_cur ex_s1e)) (Ediff ex_s1e) (alpha_r (cfg ex_s1e))
        (intermediate_minima ex_s1e)
   \<and> intermediate_minima ex_s1a = []
   \<and> hop ex_world ex_s3 = Inr ex_s4 \<and> escape ex_world ex_s3 = Inr ex_s3e
   \<and> intermediate_minima ex_s3 = [ex_atoms 5 2]
   \<and> intermediate_minima ex_s4 = [ex_atoms 5 2, ex_atoms 6 3]
   \<and> Ediff ex_s4 = Ediff ex_s3 * alpha_r (cfg ex_s3) ^ 2"
proof -
  have f3e: "intermediate_minima ex_s3e = [ex_atoms 5 2, ex_atoms 6 3]"
    "atoms ex_s3e = ex_atoms 6 3" "atoms_cur ex_s3e = ex_atoms (- 1) 1"
    "Ediff ex_s3e = 399 / 40000" "cfg ex_s3e = default_settings"
    by (simp_all add: ex_s3e_def ex_defs2)
  have f3: "intermediate_minima ex_s3 = [ex_atoms 5 2]" "atoms_cur ex_s3 = ex_atoms (- 1) 1"
    "Ediff ex_s3 = 399 / 40000" "cfg ex_s3 = default_settings"
    by (simp_all add: ex_defs2)
  have f1e: "intermediate_minima ex_s1e = [ex_atoms (- 1) 1]" "atoms_cur ex_s1e = ex_atoms 0 0"
    "Ediff ex_s1e = 1 / 100" "cfg ex_s1e = default_settings"
    by (simp_all add: ex_defs1)
  have r3: "all_rejected (get_potential_energy (atoms_cur ex_s3e)) (Ediff ex_s3e)
              (alpha_r (cfg ex_s3e)) (intermediate_minima ex_s3e)"
    by (simp add: f3e ex_atoms_def default_settings_def)
  have r1: "\<not> all_rejected (get_potential_energy (atoms_cur ex_s1e)) (Ediff ex_s1e)
              (alpha_r (cfg ex_s1e)) (intermediate_minima ex_s1e)"
    by (simp add: f1e ex_atoms_def default_settings_def)
  have r3h: "all_rejected (get_potential_energy (atoms_cur ex_s3)) (Ediff ex_s3)
              (alpha_r (cfg ex_s3)) (intermediate_minima ex_s3 @ [atoms ex_s3e])"
    by (simp add: f3 f3e ex_atoms_def default_settings_def)
  note t3 = rejected_candidates_stay_stored [where s = ex_s3e and ?s1.0 = ex_s3a]
  note t1 = rejected_candidates_stay_stored [where s = ex_s1e and ?s1.0 = ex_s1a]
  note th = rejected_candidates_stay_stored [where s = ex_s3 and w = ex_world and s' = ex_s4]
  from t3 ex_acc_rej_step3 r3 have 1: "intermediate_minima ex_s3a = intermediate_minima ex_s3e
      \<and> Ediff ex_s3a = Ediff ex_s3e * alpha_r (cfg ex_s3e) ^ length (intermediate_minima ex_s3e)"
    by simp
  from t1 ex_acc_rej_step1 r1 have 2: "intermediate_minima ex_s1a = []" by simp
  from th ex_hop3 obtain se where se: "escape ex_world ex_s3 = Inr se"
    and l: "intermediate_minima ex_s4 =
               (if all_rejected (get_potential_energy (atoms_cur ex_s3)) (Ediff ex_s3) (alpha_r (cfg ex_s3))
                     (intermediate_minima ex_s3 @ [atoms se])
                then intermediate_minima ex_s3 @ [atoms se] else [])"
    and e: "all_rejected (get_potential_energy (atoms_cur ex_s3)) (Ediff ex_s3) (alpha_r (cfg ex_s3))
                     (intermediate_minima ex_s3 @ [atoms se])
                \<longrightarrow> Ediff ex_s4 = Ediff ex_s3 * alpha_r (cfg ex_s3) ^ (length (intermediate_minima ex_s3) + 1)
                    \<and> atoms_cur ex_s4 = atoms_cur ex_s3"
    by blast
  from se ex_escape3 have "se = ex_s3e" by simp
  with l e r3h have 3: "intermediate_minima ex_s4 = intermediate_minima ex_s3 @ [atoms ex_s3e]
     \<and> Ediff ex_s4 = Ediff ex_s3 * alpha_r (cfg ex_s3) ^ (length (intermediate_minima ex_s3) + 1)"
    by simp
  from 1 have i3a: "intermediate_minima ex_s3a = [ex_atoms 5 2, ex_atoms 6 3]"
    and e3a: "Ediff ex_s3a = Ediff ex_s3e * alpha_r (cfg ex_s3e) ^ 2"
    by (simp_all add: f3e(1) power2_eq_square)
  from 3 have i4: "intermediate_minima ex_s4 = [ex_atoms 5 2, ex_atoms 6 3]"
    and e4: "Ediff ex_s4 = Ediff ex_s3 * alpha_r (cfg ex_s3) ^ 2"
    by (simp_all add: f3(1) f3e(2) power2_eq_square)
  from i3a e3a 2 i4 e4 r3 r1 ex_acc_rej_step3 ex_acc_rej_step1 ex_hop3 ex_escape3 f3(1)
  show ?thesis by blast
qed

section \<open>The temperature controller\<close>

text \<open>
  C8: with a novelty count of one \<open>_adj_temperature\<close> multiplies the temperature by
  \<open>beta_decrease\<close>, appends the structure to the unique minima and to \<open>min.extxyz\<close> and
  writes its fingerprint; with a larger count it multiplies by \<open>beta_increase\<close> (times
  \<open>1 + ln count\<close> under enhanced feedback) and leaves the unique minima alone. The
  default factors are below and above one, and every hop takes exactly one of the two
  branches.
\<close>

theorem temperature_update_sign:
  "(n_visits s = 1 \<longrightarrow>
      temperature (adj_temperature s) = temperature s * beta_decrease (cfg s)
      \<and> unique_minima (adj_temperature s) = unique_minima s @ [atoms s]
      \<and> min_extxyz (adj_temperature s) = append_file (min_extxyz s) [atoms s]
      \<and> fp_dat (adj_temperature s) = append_file (fp_dat s) (fp_lines (fp s))
      \<and> n_unique (adj_temperature s) = n_unique s + 1
      \<and> n_notunique (adj_temperature s) = n_notunique s)
   \<and> (n_visits s > 1 \<longrightarrow>
      temperature (adj_temperature s)
        = temperature s * (beta_increase (cfg s)
            * (if enhanced_feedback (cfg s) then 1 + ln (real_of_int (n_visits s)) else 1))
      \<and> beta_increase default_settings
            * (if enhanced_feedback (cfg s) then 1 + ln (real_of_int (n_visits s)) else 1) > 1
      \<and> unique_minima (adj_temperature s) = unique_minima s
      \<and> n_notunique (adj_temperature s) = n_notunique s + 1
      \<and> n_unique (adj_temperature s) = n_unique s)
   \<and> beta_decrease default_settings < 1 \<and> beta_increase default_settings > 1
   \<and> (hop w s0 = Inr s0' \<longrightarrow>
        n_unique s0' + n_notunique s0' = n_unique s0 + n_notunique s0 + 1)"
proof (intro conjI impI)
  assume "n_visits s = 1"
  then show "temperature (adj_temperature s) = temperature s * beta_decrease (cfg s)"
    and "unique_minima (adj_temperature s) = unique_minima s @ [atoms s]"
    and "min_extxyz (adj_temperature s) = append_file (min_extxyz s) [atoms s]"
    and "fp_dat (adj_temperature s) = append_file (fp_dat s) (fp_lines (fp s))"
    and "n_unique (adj_temperature s) = n_unique s + 1"
    and "n_notunique (adj_temperature s) = n_notunique s"
    by (simp_all add: adj_temperature_def write_fp_def Let_def)
next
  assume n: "n_visits s > 1"
  then show "temperature (adj_temperature s)
        = temperature s * (beta_increase (cfg s)
            * (if enhanced_feedback (cfg s) then 1 + ln (real_of_int (n_visits s)) else 1))"
    and "unique_minima (adj_temperature s) = unique_minima s"
    and "n_notunique (adj_temperature s) = n_notunique s + 1"
    and "n_unique (adj_temperature s) = n_unique s"
    by (simp_all add: adj_temperature_def Let_def)
  from n have "0 < ln (real_of_int (n_visits s))" by simp
  then have "1 * 1 < (11 / 10) * (1 + ln (real_of_int (n_visits s)))"
    by (intro mult_strict_mono) simp_all
  then show "beta_increase default_settings
            * (if enhanced_feedback (cfg s) then 1 + ln (real_of_int (n_visits s)) else 1) > 1"
    by (simp add: default_settings_def)
next
  show "beta_decrease default_settings < 1" and "beta_increase default_settings > 1"
    by (simp_all add: default_settings_def)
next
  assume "hop w s0 = Inr s0'"
  from hop_facts [OF this]
  show "n_unique s0' + n_notunique s0' = n_unique s0 + n_notunique s0 + 1" by blast
qed

theorem temperature_update_sign_witness:
  "n_visits ((hoplog ex_s1a)\<lparr>n_visits := 1\<rparr>) = 1
   \<and> temperature (adj_temperature ((hoplog ex_s1a)\<lparr>n_visits := 1\<rparr>))
        = temperature ((hoplog ex_s1a)\<lparr>n_visits := 1\<rparr>) * beta_decrease (cfg ((hoplog ex_s1a)\<lparr>n_visits := 1\<rparr>))
   \<and> unique_minima (adj_temperature ((hoplog ex_s1a)\<lparr>n_visits := 1\<rparr>)) = [ex_atoms (- 1) 1]
   \<and> fp_dat (adj_temperature ((hoplog ex_s1a)\<lparr>n_visits := 1\<rparr>)) = Some [[1]]
   \<and> n_visits ((hoplog ex_s1a)\<lparr>n_visits := 2\<rparr>) > 1
   \<and> temperature (adj_temperature ((hoplog ex_s1a)\<lparr>n_visits := 2\<rparr>)) = 2200
   \<and> unique_minima (adj_temperature ((hoplog ex_s1a)\<lparr>n_visits := 2\<rparr>)) = []
   \<and> hop ex_world ex_s1 = Inr ex_s2
   \<and> n_unique ex_s2 + n_notunique ex_s2 = n_unique ex_s1 + n_notunique ex_s1 + 1"
proof -
  let ?u = "(hoplog ex_s1a)\<lparr>n_visits := 1\<rparr>"
  let ?v = "(hoplog ex_s1a)\<lparr>n_visits := 2\<rparr>"
  have u: "n_visits ?u = 1" and v: "n_visits ?v > 1" by simp_all
  have fu: "unique_minima ?u = []" "atoms ?u = ex_atoms (- 1) 1" "fp_dat ?u = None"
    "fp ?u = Vec [1]"
    by (simp_all add: hoplog_def ex_s1a_def ex_s1e_def ex_s1_def)
  have fv: "unique_minima ?v = []" "temperature ?v = 2000" "cfg ?v = default_settings"
    by (simp_all add: hoplog_def ex_s1a_def ex_s1e_def ex_s1_def)
  note t1 = temperature_update_sign [of ?u ex_world ex_s1 ex_s2]
  note t2 = temperature_update_sign [of ?v ex_world ex_s1 ex_s2]
  from t1 u have 1: "temperature (adj_temperature ?u) = temperature ?u * beta_decrease (cfg ?u)
      \<and> unique_minima (adj_temperature ?u) = unique_minima ?u @ [atoms ?u]
      \<and> fp_dat (adj_temperature ?u) = append_file (fp_dat ?u) (fp_lines (fp ?u))"
    by blast
  from t2 v have "temperature (adj_temperature ?v)
        = temperature ?v * (beta_increase (cfg ?v)
            * (if enhanced_feedback (cfg ?v) then 1 + ln (real_of_int (n_visits ?v)) else 1))
      \<and> unique_minima (adj_temperature ?v) = unique_minima ?v"
    by blast
  with fv have 2: "temperature (adj_temperature ?v) = 2200
      \<and> unique_minima (adj_temperature ?v) = []"
    by (simp add: default_settings_def)
  from t1 ex_hop1 have 3:
    "n_unique ex_s2 + n_notunique ex_s2 = n_unique ex_s1 + n_notunique ex_s1 + 1"
    by blast
  from 1 fu have u1: "temperature (adj_temperature ?u) = temperature ?u * beta_decrease (cfg ?u)
      \<and> unique_minima (adj_temperature ?u) = [ex_atoms (- 1) 1]
      \<and> fp_dat (adj_temperature ?u) = Some [[1]]"
    by (simp add: append_file_def)
  from u v u1 2 3 ex_hop1 show ?thesis by blast
qed

end
